theory Spec2Isabelle
  imports Main "HOL-Library.Char_ord" "HOL-Library.List_Lexorder" "HOL-Library.AList"
begin

section \<open>The external-program resource of terraform-provider-external\<close>

text \<open>
  This theory embeds \<^verbatim>\<open>internal/provider\<close> of the repository: the resource
  \<^verbatim>\<open>programResource\<close> with its \<^verbatim>\<open>Create\<close> and \<^verbatim>\<open>Read\<close> operations.
  \<^verbatim>\<open>Create\<close> is a single Go function that calls into the Go standard library
  (\<^verbatim>\<open>strings\<close>, \<^verbatim>\<open>strconv\<close> through \<^verbatim>\<open>fmt\<close>, \<^verbatim>\<open>unicode/utf8\<close>,
  \<^verbatim>\<open>encoding/json\<close>, \<^verbatim>\<open>os/exec\<close>) and into terraform-plugin-framework.
  Pure library functions are written out as HOL functions over byte strings
  (\<^typ>\<open>string\<close> is a list of 8-bit characters, as a Go \<^verbatim>\<open>string\<close> is a
  sequence of bytes).  What depends on the machine the provider runs on (the
  executable search path, the child process, Unicode's table of printable
  characters) is a field of the record \<open>env\<close> and is left arbitrary.
\<close>

subsection \<open>Bytes, runes and UTF-8 (package unicode/utf8)\<close>

definition dquote :: char where "dquote = CHR 0x22"
definition bslash :: char where "bslash = CHR 0x5C"

text \<open>\<^verbatim>\<open>utf8.RuneError\<close>, the replacement character U+FFFD.\<close>

definition RuneError :: nat where "RuneError = 0xFFFD"

text \<open>
  \<^verbatim>\<open>utf8.DecodeRuneInString\<close>: the first rune of the string and its width in bytes;
  \<^verbatim>\<open>(RuneError, 0)\<close> on the empty string and \<^verbatim>\<open>(RuneError, 1)\<close> on an invalid
  encoding.  The masks and shifts of the Go code are written with \<open>mod\<close> and
  multiplication on natural numbers.
\<close>

fun DecodeRuneInString :: "string \<Rightarrow> nat \<times> nat" where
  "DecodeRuneInString [] = (RuneError, 0)"
| "DecodeRuneInString (c0 # rest) =
    (let s0 = (of_char c0 :: nat) in
     if s0 < 0x80 then (s0, 1)
     else if s0 < 0xC2 \<or> 0xF4 < s0 then (RuneError, 1)
     else
       let sz = (if s0 < 0xE0 then 2 else if s0 < 0xF0 then 3 else (4::nat));
           lo = (if s0 = 0xE0 then 0xA0 else if s0 = 0xF0 then 0x90 else (0x80::nat));
           hi = (if s0 = 0xED then 0x9F else if s0 = 0xF4 then 0x8F else (0xBF::nat))
       in
       if Suc (length rest) < sz then (RuneError, 1)
       else
         let s1 = (of_char (rest ! 0) :: nat) in
         if s1 < lo \<or> hi < s1 then (RuneError, 1)
         else if sz \<le> 2 then ((s0 mod 0x20) * 0x40 + s1 mod 0x40, 2)
         else
           let s2 = (of_char (rest ! 1) :: nat) in
           if s2 < 0x80 \<or> 0xBF < s2 then (RuneError, 1)
           else if sz \<le> 3 then
             ((s0 mod 0x10) * 0x1000 + (s1 mod 0x40) * 0x40 + s2 mod 0x40, 3)
           else
             let s3 = (of_char (rest ! 2) :: nat) in
             if s3 < 0x80 \<or> 0xBF < s3 then (RuneError, 1)
             else ((s0 mod 8) * 0x40000 + (s1 mod 0x40) * 0x1000
                     + (s2 mod 0x40) * 0x40 + s3 mod 0x40, 4))"

text \<open>\<^verbatim>\<open>utf8.ValidRune\<close>: in range and not a surrogate half.\<close>

definition ValidRune :: "nat \<Rightarrow> bool" where
  "ValidRune r = (r < 0xD800 \<or> (0xDFFF < r \<and> r \<le> 0x10FFFF))"

text \<open>\<^verbatim>\<open>utf8.AppendRune\<close> (to the empty buffer): the UTF-8 encoding of a rune.\<close>

definition AppendRune :: "nat \<Rightarrow> string" where
  "AppendRune r =
    (if r \<le> 0x7F then [char_of r]
     else if r \<le> 0x7FF then [char_of (0xC0 + r div 0x40), char_of (0x80 + r mod 0x40)]
     else
       let r' = (if \<not> ValidRune r then RuneError else r) in
       if r' \<le> 0xFFFF then
         [char_of (0xE0 + r' div 0x1000), char_of (0x80 + (r' div 0x40) mod 0x40),
          char_of (0x80 + r' mod 0x40)]
       else
         [char_of (0xF0 + r' div 0x40000), char_of (0x80 + (r' div 0x1000) mod 0x40),
          char_of (0x80 + (r' div 0x40) mod 0x40), char_of (0x80 + r' mod 0x40)])"

subsection \<open>Quoting a string (strconv.Quote, the verb %q of fmt)\<close>

definition lowerhex :: string where "lowerhex = ''0123456789abcdef''"

text \<open>The hexadecimal digits of \<open>r\<close>, \<open>n\<close> of them, most significant first.\<close>

fun hexDigits :: "nat \<Rightarrow> nat \<Rightarrow> string" where
  "hexDigits 0 r = []"
| "hexDigits (Suc n) r = (lowerhex ! ((r div 16 ^ n) mod 16)) # hexDigits n r"

text \<open>
  \<^verbatim>\<open>strconv.IsPrint\<close>.  Runes up to U+00FF are decided by the code itself; for
  the others Go looks the rune up in tables generated from the Unicode
  database, which the parameter \<open>tab\<close> stands for.
\<close>

definition IsPrint :: "(nat \<Rightarrow> bool) \<Rightarrow> nat \<Rightarrow> bool" where
  "IsPrint tab r =
    (if r \<le> 0xFF then
       (if 0x20 \<le> r \<and> r \<le> 0x7E then True
        else if 0xA1 \<le> r \<and> r \<le> 0xFF then r \<noteq> 0xAD
        else False)
     else tab r)"

text \<open>
  \<^verbatim>\<open>strconv.appendEscapedRune\<close> with \<^verbatim>\<open>quote = '"'\<close>, \<^verbatim>\<open>ASCIIonly = false\<close>
  and \<^verbatim>\<open>graphicOnly = false\<close>, as \<^verbatim>\<open>Quote\<close> calls it.  The quote and the
  backslash get a backslash; a printable rune is written in UTF-8; for the
  others the \<^verbatim>\<open>switch\<close> of the function writes an escape.
\<close>

definition escapeSwitch :: "nat \<Rightarrow> string" where
  "escapeSwitch r =
    bslash #
    (if r = 7 then ''a''
     else if r = 8 then ''b''
     else if r = 12 then ''f''
     else if r = 10 then ''n''
     else if r = 13 then ''r''
     else if r = 9 then ''t''
     else if r = 11 then ''v''
     else if r < 0x20 \<or> r = 0x7F then CHR ''x'' # hexDigits 2 r
     else if \<not> ValidRune r then CHR ''u'' # hexDigits 4 RuneError
     else if r < 0x10000 then CHR ''u'' # hexDigits 4 r
     else CHR ''U'' # hexDigits 8 r)"

definition appendEscapedRune :: "(nat \<Rightarrow> bool) \<Rightarrow> nat \<Rightarrow> string" where
  "appendEscapedRune tab r =
    (if r = of_char dquote \<or> r = of_char bslash then [bslash, char_of r]
     else if IsPrint tab r then AppendRune r
     else escapeSwitch r)"

text \<open>
  One turn of the loop of \<^verbatim>\<open>strconv.appendQuotedWith\<close> on a non-empty string:
  the bytes appended to the buffer and the number of bytes consumed.
\<close>

definition quoteStep :: "(nat \<Rightarrow> bool) \<Rightarrow> string \<Rightarrow> string \<times> nat" where
  "quoteStep tab s =
    (let (r, width) =
          (if (of_char (hd s) :: nat) \<ge> 0x80 then DecodeRuneInString s
           else (of_char (hd s), 1))
     in
     if width = 1 \<and> r = RuneError then
       ([bslash, CHR ''x''] @ hexDigits 2 (of_char (hd s)), width)
     else (appendEscapedRune tab r, width))"

function quoteBody :: "(nat \<Rightarrow> bool) \<Rightarrow> string \<Rightarrow> string" where
  "quoteBody tab s =
    (if s = [] then []
     else fst (quoteStep tab s) @ quoteBody tab (drop (snd (quoteStep tab s)) s))"
  by pat_completeness auto
termination
proof (relation "measure (\<lambda>(tab, s). length s)")
  show "wf (measure (\<lambda>(tab :: nat \<Rightarrow> bool, s :: string). length s))"
    by simp
next
  fix tab :: "nat \<Rightarrow> bool" and s :: string
  assume ne: "s \<noteq> []"
  then have "1 \<le> snd (DecodeRuneInString s)"
    by (cases s) (simp_all add: Let_def)
  then have "1 \<le> snd (quoteStep tab s)"
    by (auto simp: quoteStep_def Let_def split: prod.splits)
  with ne show
    "((tab, drop (snd (quoteStep tab s)) s), (tab, s)) \<in> measure (\<lambda>(tab, s). length s)"
    by simp
qed

declare quoteBody.simps [simp del]

text \<open>\<^verbatim>\<open>strconv.Quote\<close>: the body between two double quotes.\<close>

definition Quote :: "(nat \<Rightarrow> bool) \<Rightarrow> string \<Rightarrow> string" where
  "Quote tab s = [dquote] @ quoteBody tab s @ [dquote]"

text \<open>
  \<^verbatim>\<open>strings.Replace(s, old, new, -1)\<close> for a pattern \<open>old\<close> of one byte, as
  \<^verbatim>\<open>Create\<close> calls it with the pattern \<^verbatim>\<open>"\""\<close>: every occurrence is replaced.
\<close>

definition strings_Replace :: "string \<Rightarrow> char \<Rightarrow> string \<Rightarrow> string" where
  "strings_Replace s old new = concat (map (\<lambda>c. if c = old then new else [c]) s)"

subsection \<open>Encoding a map of strings (json.Marshal)\<close>

text \<open>
  A Go \<^verbatim>\<open>map[string]string\<close> is an association list whose keys are distinct;
  the order of the list is the order in which \<^verbatim>\<open>range\<close> happens to visit the
  entries.  \<^verbatim>\<open>query[key] = valArg\<close> is \<^const>\<open>AList.update\<close>.
\<close>

type_synonym gomap = "(string \<times> string) list"

text \<open>
  \<^verbatim>\<open>htmlSafeSet\<close> of encoding/json: the ASCII bytes that are copied into a JSON
  string as they are when HTML escaping is on, which it is for \<^verbatim>\<open>json.Marshal\<close>.
\<close>

definition htmlSafeSet :: "nat \<Rightarrow> bool" where
  "htmlSafeSet b =
    (0x20 \<le> b \<and> b < 0x80 \<and> b \<noteq> 0x22 \<and> b \<noteq> 0x5C \<and> b \<noteq> 0x3C \<and> b \<noteq> 0x3E \<and> b \<noteq> 0x26)"

text \<open>
  One turn of the loop of the string encoder of encoding/json (the method
  \<^verbatim>\<open>encodeState.string\<close>, as in the Go releases up to 1.21, where a control byte
  other than newline, carriage return and tab is written as \<^verbatim>\<open>\u00XX\<close>): the
  bytes written for the first character and the number of bytes consumed.
\<close>

definition jsonStep :: "string \<Rightarrow> string \<times> nat" where
  "jsonStep s =
    (let b = (of_char (hd s) :: nat) in
     if b < 0x80 then
       (if htmlSafeSet b then [hd s]
        else if b = 0x5C \<or> b = 0x22 then [bslash, hd s]
        else if b = 10 then [bslash, CHR ''n'']
        else if b = 13 then [bslash, CHR ''r'']
        else if b = 9 then [bslash, CHR ''t'']
        else [bslash, CHR ''u'', CHR ''0'', CHR ''0''] @ hexDigits 2 b, 1)
     else
       let (c, size) = DecodeRuneInString (take 4 s) in
       if c = RuneError \<and> size = 1 then ([bslash, CHR ''u'', CHR ''f'', CHR ''f'', CHR ''f'', CHR ''d''], size)
       else if c = 0x2028 \<or> c = 0x2029 then
         ([bslash, CHR ''u'', CHR ''2'', CHR ''0'', CHR ''2''] @ hexDigits 1 c, size)
       else (take size s, size))"

function jsonStringBody :: "string \<Rightarrow> string" where
  "jsonStringBody s =
    (if s = [] then []
     else fst (jsonStep s) @ jsonStringBody (drop (snd (jsonStep s)) s))"
  by pat_completeness auto
termination
proof (relation "measure length")
  show "wf (measure (length :: string \<Rightarrow> nat))"
    by simp
next
  fix s :: string
  assume ne: "s \<noteq> []"
  then have "take 4 s \<noteq> []"
    by (cases s) simp_all
  then have "1 \<le> snd (DecodeRuneInString (take 4 s))"
    by (cases "take 4 s") (simp_all add: Let_def)
  then have "1 \<le> snd (jsonStep s)"
    by (auto simp: jsonStep_def Let_def split: prod.splits)
  with ne show "(drop (snd (jsonStep s)) s, s) \<in> measure length"
    by simp
qed

declare jsonStringBody.simps [simp del]

definition jsonString :: "string \<Rightarrow> string" where
  "jsonString s = [dquote] @ jsonStringBody s @ [dquote]"

text \<open>\<^verbatim>\<open>strings.Join\<close>.\<close>

fun strings_Join :: "string list \<Rightarrow> string \<Rightarrow> string" where
  "strings_Join [] sep = []"
| "strings_Join [x] sep = x"
| "strings_Join (x # y # ys) sep = x @ sep @ strings_Join (y # ys) sep"

text \<open>
  \<^verbatim>\<open>json.Marshal\<close> of a non-nil \<^verbatim>\<open>map[string]string\<close>.  The encoder writes the
  entries sorted by key (as byte strings), each as \<^verbatim>\<open>"key":"value"\<close>, separated
  by commas between braces.  The result is the pair of Go's
  \<^verbatim>\<open>([]byte, error)\<close> as a sum; for a map of strings the encoder has no error
  to return.
\<close>

definition marshalMap :: "gomap \<Rightarrow> string" where
  "marshalMap m =
    ''{'' @
    strings_Join (map (\<lambda>kv. jsonString (fst kv) @ '':'' @ jsonString (snd kv)) (sort_key fst m)) '','' @
    ''}''"

definition json_Marshal :: "gomap \<Rightarrow> string + string" where
  "json_Marshal m = Inr (marshalMap m)"

subsection \<open>Decoding the program's output (json.Unmarshal)\<close>

text \<open>
  A JSON value as the decoder of encoding/json reads it.  A number keeps its
  literal text; an object keeps its members in the order of the text, with
  repeated keys.
\<close>

datatype json =
    JNull
  | JBool bool
  | JNumber string
  | JString string
  | JArray "json list"
  | JObject "(string \<times> json) list"

datatype token =
    TLBrace | TRBrace | TLBrack | TRBrack | TColon | TComma
  | TString string | TNumber string | TTrue | TFalse | TNull

definition isSpace :: "char \<Rightarrow> bool" where
  "isSpace c = (c = CHR '' '' \<or> c = CHR 0x09 \<or> c = CHR 0x0D \<or> c = CHR 0x0A)"

definition isDigit :: "char \<Rightarrow> bool" where
  "isDigit c = (0x30 \<le> (of_char c :: nat) \<and> (of_char c :: nat) \<le> 0x39)"

definition isHex :: "char \<Rightarrow> bool" where
  "isHex c =
    (isDigit c \<or> (0x41 \<le> (of_char c :: nat) \<and> (of_char c :: nat) \<le> 0x46)
      \<or> (0x61 \<le> (of_char c :: nat) \<and> (of_char c :: nat) \<le> 0x66))"

definition hexVal :: "char \<Rightarrow> nat" where
  "hexVal c =
    (if isDigit c then of_char c - 0x30
     else if (of_char c :: nat) \<le> 0x46 then of_char c - 0x41 + 10
     else of_char c - 0x61 + 10)"

text \<open>
  The extent of a string literal, as the scanner of encoding/json accepts it:
  the argument is the text after the opening quote, the result the raw text
  up to the closing quote and the text after it.  A control byte, an unknown
  escape and an unfinished literal are errors.
\<close>

definition isEscape :: "char \<Rightarrow> bool" where
  "isEscape e =
    (e = CHR ''b'' \<or> e = CHR ''f'' \<or> e = CHR ''n'' \<or> e = CHR ''r'' \<or> e = CHR ''t''
      \<or> e = bslash \<or> e = CHR ''/'' \<or> e = dquote)"

fun stringExtent :: "string \<Rightarrow> (string \<times> string) option" where
  "stringExtent [] = None"
| "stringExtent (c # cs) =
    (if c = dquote then Some ([], cs)
     else if c = bslash then
       (case cs of
          [] \<Rightarrow> None
        | e # cs' \<Rightarrow>
            if isEscape e then map_option (\<lambda>(raw, rest). (c # e # raw, rest)) (stringExtent cs')
            else if e = CHR ''u'' then
              (case cs' of
                 h1 # h2 # h3 # h4 # cs'' \<Rightarrow>
                   if isHex h1 \<and> isHex h2 \<and> isHex h3 \<and> isHex h4
                   then map_option (\<lambda>(raw, rest). (c # e # h1 # h2 # h3 # h4 # raw, rest))
                          (stringExtent cs'')
                   else None
               | _ \<Rightarrow> None)
            else None)
     else if (of_char c :: nat) < 0x20 then None
     else map_option (\<lambda>(raw, rest). (c # raw, rest)) (stringExtent cs))"

text \<open>\<^verbatim>\<open>getu4\<close>: the code unit of an escape \<^verbatim>\<open>\uXXXX\<close> at the head of the text.\<close>

definition getu4 :: "string \<Rightarrow> nat option" where
  "getu4 s =
    (case s of
       b # u # h1 # h2 # h3 # h4 # _ \<Rightarrow>
         if b = bslash \<and> u = CHR ''u'' \<and> isHex h1 \<and> isHex h2 \<and> isHex h3 \<and> isHex h4
         then Some (((hexVal h1 * 16 + hexVal h2) * 16 + hexVal h3) * 16 + hexVal h4)
         else None
     | _ \<Rightarrow> None)"

text \<open>\<^verbatim>\<open>utf16.IsSurrogate\<close> and \<^verbatim>\<open>utf16.DecodeRune\<close>.\<close>

definition IsSurrogate :: "nat \<Rightarrow> bool" where
  "IsSurrogate r = (0xD800 \<le> r \<and> r < 0xE000)"

definition utf16_DecodeRune :: "nat \<Rightarrow> nat \<Rightarrow> nat" where
  "utf16_DecodeRune r1 r2 =
    (if 0xD800 \<le> r1 \<and> r1 < 0xDC00 \<and> 0xDC00 \<le> r2 \<and> r2 < 0xE000
     then (r1 - 0xD800) * 0x400 + (r2 - 0xDC00) + 0x10000
     else RuneError)"

text \<open>
  One turn of the loop of \<^verbatim>\<open>unquoteBytes\<close> on the raw text of a literal the
  scanner has accepted: the bytes written and the number of bytes consumed.
  Invalid UTF-8 and a lone surrogate become U+FFFD.
\<close>

definition unquoteStep :: "string \<Rightarrow> string \<times> nat" where
  "unquoteStep s =
    (let c = hd s in
     if c = bslash then
       (let e = hd (tl s) in
        if e = CHR ''u'' then
          (case getu4 s of
             None \<Rightarrow> ([], 6)
           | Some rr \<Rightarrow>
               if IsSurrogate rr then
                 (case getu4 (drop 6 s) of
                    None \<Rightarrow> (AppendRune RuneError, 6)
                  | Some rr1 \<Rightarrow>
                      let dec = utf16_DecodeRune rr rr1 in
                      if dec \<noteq> RuneError then (AppendRune dec, 12)
                      else (AppendRune RuneError, 6))
               else (AppendRune rr, 6))
        else
          ([if e = CHR ''b'' then CHR 0x08
            else if e = CHR ''f'' then CHR 0x0C
            else if e = CHR ''n'' then CHR 0x0A
            else if e = CHR ''r'' then CHR 0x0D
            else if e = CHR ''t'' then CHR 0x09
            else e], 2))
     else if (of_char c :: nat) < 0x80 then ([c], 1)
     else
       let (rr, size) = DecodeRuneInString s in (AppendRune rr, size))"

function unquote :: "string \<Rightarrow> string" where
  "unquote s =
    (if s = [] then []
     else fst (unquoteStep s) @ unquote (drop (snd (unquoteStep s)) s))"
  by pat_completeness auto
termination
proof (relation "measure length")
  show "wf (measure (length :: string \<Rightarrow> nat))"
    by simp
next
  fix s :: string
  assume ne: "s \<noteq> []"
  then have "1 \<le> snd (DecodeRuneInString s)"
    by (cases s) (simp_all add: Let_def)
  then have "1 \<le> snd (unquoteStep s)"
    by (auto simp: unquoteStep_def Let_def split: prod.splits option.splits)
  with ne show "(drop (snd (unquoteStep s)) s, s) \<in> measure length"
    by simp
qed

declare unquote.simps [simp del]

text \<open>
  A number literal at the head of the text, by the grammar of the scanner: an
  optional minus sign, \<^verbatim>\<open>0\<close> or a digit from 1 to 9 followed by digits, an
  optional fraction, an optional exponent.  Each part gives the number of
  bytes it takes, \<^verbatim>\<open>scanNumber\<close> the length of the literal.
\<close>

definition digitsLen :: "string \<Rightarrow> nat" where
  "digitsLen s = length (takeWhile isDigit s)"

definition intPart :: "string \<Rightarrow> nat option" where
  "intPart s =
    (if s = [] \<or> \<not> isDigit (hd s) then None
     else if hd s = CHR ''0'' then Some 1
     else Some (Suc (digitsLen (tl s))))"

definition fracPart :: "string \<Rightarrow> nat option" where
  "fracPart s =
    (if s \<noteq> [] \<and> hd s = CHR ''.'' then
       (if digitsLen (tl s) = 0 then None else Some (Suc (digitsLen (tl s))))
     else Some 0)"

definition expPart :: "string \<Rightarrow> nat option" where
  "expPart s =
    (if s \<noteq> [] \<and> (hd s = CHR ''e'' \<or> hd s = CHR ''E'') then
       (let sg = (if tl s \<noteq> [] \<and> (hd (tl s) = CHR ''+'' \<or> hd (tl s) = CHR ''-'')
                  then 1 else 0);
            ed = digitsLen (drop sg (tl s))
        in if ed = 0 then None else Some (Suc (sg + ed)))
     else Some 0)"

definition scanNumber :: "string \<Rightarrow> nat option" where
  "scanNumber s =
    (let neg = (if s \<noteq> [] \<and> hd s = CHR ''-'' then 1 else 0) in
     case intPart (drop neg s) of
       None \<Rightarrow> None
     | Some ip \<Rightarrow>
         (case fracPart (drop (neg + ip) s) of
            None \<Rightarrow> None
          | Some fp \<Rightarrow>
              (case expPart (drop (neg + ip + fp) s) of
                 None \<Rightarrow> None
               | Some ep \<Rightarrow> Some (neg + ip + fp + ep))))"

text \<open>
  The tokens of a text.  White space between tokens is skipped; any other
  byte that starts no token is an error.
\<close>

function tokenize :: "string \<Rightarrow> token list option" where
  "tokenize s =
    (case s of
       [] \<Rightarrow> Some []
     | c # cs \<Rightarrow>
         if isSpace c then tokenize cs
         else if c = CHR ''{'' then map_option (Cons TLBrace) (tokenize cs)
         else if c = CHR ''}'' then map_option (Cons TRBrace) (tokenize cs)
         else if c = CHR ''['' then map_option (Cons TLBrack) (tokenize cs)
         else if c = CHR '']'' then map_option (Cons TRBrack) (tokenize cs)
         else if c = CHR '':'' then map_option (Cons TColon) (tokenize cs)
         else if c = CHR '','' then map_option (Cons TComma) (tokenize cs)
         else if c = dquote then
           (case stringExtent cs of
              None \<Rightarrow> None
            | Some (raw, rest) \<Rightarrow> map_option (Cons (TString (unquote raw))) (tokenize rest))
         else if c = CHR ''-'' \<or> isDigit c then
           (case scanNumber s of
              None \<Rightarrow> None
            | Some n \<Rightarrow> map_option (Cons (TNumber (take n s))) (tokenize (drop n s)))
         else if take 4 s = ''true'' then map_option (Cons TTrue) (tokenize (drop 4 s))
         else if take 5 s = ''false'' then map_option (Cons TFalse) (tokenize (drop 5 s))
         else if take 4 s = ''null'' then map_option (Cons TNull) (tokenize (drop 4 s))
         else None)"
  by pat_completeness auto
termination
proof (relation "measure length")
  show "wf (measure (length :: string \<Rightarrow> nat))"
    by simp
next
  fix s :: string and c cs x2 raw rest
  assume "s = c # cs" "stringExtent cs = Some x2" "(raw, rest) = x2"
  moreover have "stringExtent t = Some (r, u) \<Longrightarrow> length u \<le> length t" for t r u
  proof (induction t arbitrary: r u rule: stringExtent.induct)
    case 1
    then show ?case by simp
  next
    case (2 c cs)
    then show ?case
      by (fastforce split: if_splits list.splits)
  qed
  ultimately show "(rest, s) \<in> measure length"
    by fastforce
next
  fix s :: string and c cs n
  assume "s = c # cs" "scanNumber s = Some n"
  then have "1 \<le> n"
    by (auto simp: scanNumber_def intPart_def Let_def split: option.splits if_splits)
  with \<open>s = c # cs\<close> show "(drop n s, s) \<in> measure length"
    by simp
qed simp_all

declare tokenize.simps [simp del]

text \<open>
  The parser over tokens follows the states of the scanner of encoding/json
  (\<^verbatim>\<open>stateBeginValue\<close>, \<^verbatim>\<open>stateBeginValueOrEmpty\<close>, \<^verbatim>\<open>stateBeginStringOrEmpty\<close>,
  \<^verbatim>\<open>stateBeginString\<close>, the object key before its colon, \<^verbatim>\<open>stateEndValue\<close>,
  \<^verbatim>\<open>stateEndTop\<close>) with its stack of open arrays and objects.  A frame holds
  what has been read of the array or object so far, latest first, and for an
  object the key whose value is being read.
\<close>

datatype frame = FArray "json list" | FObject "(string \<times> json) list" string

datatype pstate =
    BeginValue | BeginValueOrEmpty | BeginStringOrEmpty | BeginString
  | ObjectKey | EndValue | EndTop json

definition maxNestingDepth :: nat where "maxNestingDepth = 10000"

text \<open>A value is complete: it is the top-level value, an item or a member's value.\<close>

fun endValue :: "json \<Rightarrow> frame list \<Rightarrow> pstate \<times> frame list" where
  "endValue v [] = (EndTop v, [])"
| "endValue v (FArray items # stack) = (EndValue, FArray (v # items) # stack)"
| "endValue v (FObject members k # stack) = (EndValue, FObject ((k, v) # members) k # stack)"

definition pushParseState :: "frame \<Rightarrow> frame list \<Rightarrow> pstate \<Rightarrow> (pstate \<times> frame list) option" where
  "pushParseState f stack success =
    (if Suc (length stack) \<le> maxNestingDepth then Some (success, f # stack) else None)"

fun beginValue :: "frame list \<Rightarrow> token \<Rightarrow> (pstate \<times> frame list) option" where
  "beginValue stack TLBrace = pushParseState (FObject [] []) stack BeginStringOrEmpty"
| "beginValue stack TLBrack = pushParseState (FArray []) stack BeginValueOrEmpty"
| "beginValue stack (TString s) = Some (endValue (JString s) stack)"
| "beginValue stack (TNumber n) = Some (endValue (JNumber n) stack)"
| "beginValue stack TTrue = Some (endValue (JBool True) stack)"
| "beginValue stack TFalse = Some (endValue (JBool False) stack)"
| "beginValue stack TNull = Some (endValue JNull stack)"
| "beginValue stack _ = None"

fun closeArray :: "frame list \<Rightarrow> (pstate \<times> frame list) option" where
  "closeArray (FArray items # stack) = Some (endValue (JArray (rev items)) stack)"
| "closeArray _ = None"

fun closeObject :: "frame list \<Rightarrow> (pstate \<times> frame list) option" where
  "closeObject (FObject members k # stack) = Some (endValue (JObject (rev members)) stack)"
| "closeObject _ = None"

fun objectKey :: "string \<Rightarrow> frame list \<Rightarrow> (pstate \<times> frame list) option" where
  "objectKey s (FObject members k # stack) = Some (ObjectKey, FObject members s # stack)"
| "objectKey s _ = None"

fun afterComma :: "frame list \<Rightarrow> (pstate \<times> frame list) option" where
  "afterComma (FArray items # stack) = Some (BeginValue, FArray items # stack)"
| "afterComma (FObject members k # stack) = Some (BeginString, FObject members k # stack)"
| "afterComma [] = None"

definition step :: "pstate \<Rightarrow> frame list \<Rightarrow> token \<Rightarrow> (pstate \<times> frame list) option" where
  "step st stack t =
    (case st of
       BeginValue \<Rightarrow> beginValue stack t
     | BeginValueOrEmpty \<Rightarrow> if t = TRBrack then closeArray stack else beginValue stack t
     | BeginStringOrEmpty \<Rightarrow>
         (case t of TRBrace \<Rightarrow> closeObject stack | TString s \<Rightarrow> objectKey s stack | _ \<Rightarrow> None)
     | BeginString \<Rightarrow> (case t of TString s \<Rightarrow> objectKey s stack | _ \<Rightarrow> None)
     | ObjectKey \<Rightarrow> (case t of TColon \<Rightarrow> Some (BeginValue, stack) | _ \<Rightarrow> None)
     | EndValue \<Rightarrow>
         (case t of
            TComma \<Rightarrow> afterComma stack
          | TRBrack \<Rightarrow> closeArray stack
          | TRBrace \<Rightarrow> closeObject stack
          | _ \<Rightarrow> None)
     | EndTop v \<Rightarrow> None)"

fun parseTokens :: "pstate \<Rightarrow> frame list \<Rightarrow> token list \<Rightarrow> json option" where
  "parseTokens (EndTop v) stack [] = Some v"
| "parseTokens st stack [] = None"
| "parseTokens st stack (t # ts) =
    (case step st stack t of
       None \<Rightarrow> None
     | Some (st', stack') \<Rightarrow> parseTokens st' stack' ts)"

text \<open>The value of a text, or \<open>None\<close> for a syntax error (\<^verbatim>\<open>checkValid\<close> fails).\<close>

definition json_parse :: "string \<Rightarrow> json option" where
  "json_parse data =
    (case tokenize data of
       None \<Rightarrow> None
     | Some ts \<Rightarrow> parseTokens BeginValue [] ts)"

text \<open>
  A number stored into an \<^verbatim>\<open>interface{}\<close> is converted with
  \<^verbatim>\<open>strconv.ParseFloat(s, 64)\<close>, which fails when the literal rounds to a
  magnitude beyond the largest 64-bit float, that is when it is at least
  \<open>2^1024 - 2^970\<close>.  The literal is \<open>m * 10^e\<close> for the digits \<open>m\<close> of its integer
  and fraction parts.
\<close>

definition digitsToInt :: "string \<Rightarrow> int" where
  "digitsToInt ds = foldl (\<lambda>n c. 10 * n + (of_char c - 0x30)) 0 ds"

definition float64Overflow :: "string \<Rightarrow> bool" where
  "float64Overflow lit =
    (let s1 = (if lit \<noteq> [] \<and> hd lit = CHR ''-'' then tl lit else lit);
         ip = takeWhile isDigit s1;
         s2 = dropWhile isDigit s1;
         fd = (if s2 \<noteq> [] \<and> hd s2 = CHR ''.'' then takeWhile isDigit (tl s2) else []);
         s3 = (if s2 \<noteq> [] \<and> hd s2 = CHR ''.'' then dropWhile isDigit (tl s2) else s2);
         ex = (if s3 = [] then (0::int)
               else if hd (tl s3) = CHR ''-'' then - digitsToInt (tl (tl s3))
               else if hd (tl s3) = CHR ''+'' then digitsToInt (tl (tl s3))
               else digitsToInt (tl s3));
         m = digitsToInt (ip @ fd);
         e = ex - int (length fd);
         bound = (2::int) ^ 1024 - 2 ^ 970
     in if 0 \<le> e then bound \<le> m * 10 ^ nat e else bound * 10 ^ nat (- e) \<le> m)"

text \<open>The number literals of a value that do not fit, in the order of the text.\<close>

fun badNumbers :: "json \<Rightarrow> string list" where
  "badNumbers JNull = []"
| "badNumbers (JBool b) = []"
| "badNumbers (JNumber n) = (if float64Overflow n then [n] else [])"
| "badNumbers (JString s) = []"
| "badNumbers (JArray items) = concat (map badNumbers items)"
| "badNumbers (JObject members) = concat (map (\<lambda>m. badNumbers (snd m)) members)"

text \<open>
  The errors of \<^verbatim>\<open>json.Unmarshal\<close>: a syntax error, or a value that does not
  fit the Go type it is stored into (\<^verbatim>\<open>UnmarshalTypeError\<close> with the description
  of the JSON value and the name of the Go type).
\<close>

datatype json_error = SyntaxError | UnmarshalTypeError string string

text \<open>
  A Go \<^verbatim>\<open>map[string]interface{}\<close> holding decoded JSON: \<open>None\<close> is the nil map,
  \<open>Some m\<close> a map as an association list with distinct keys.
\<close>

type_synonym gomap_any = "(string \<times> json) list option"

text \<open>
  \<^verbatim>\<open>json.Unmarshal(data, &result)\<close> for \<^verbatim>\<open>result\<close> of type
  \<^verbatim>\<open>map[string]interface{}\<close>, initially empty.  An object is stored member by
  member, a later member replacing an earlier one of the same key, and the
  values may be any JSON values.  The literal \<^verbatim>\<open>null\<close> sets the map to nil and
  is no error.  Any other top-level value is an \<^verbatim>\<open>UnmarshalTypeError\<close>.
\<close>

definition storeMembers :: "(string \<times> json) list \<Rightarrow> (string \<times> json) list" where
  "storeMembers members = foldl (\<lambda>m kv. AList.update (fst kv) (snd kv) m) [] members"

definition json_Unmarshal :: "string \<Rightarrow> json_error + gomap_any" where
  "json_Unmarshal data =
    (case json_parse data of
       None \<Rightarrow> Inl SyntaxError
     | Some JNull \<Rightarrow> Inr None
     | Some (JBool b) \<Rightarrow> Inl (UnmarshalTypeError ''bool'' ''map[string]interface {}'')
     | Some (JNumber n) \<Rightarrow> Inl (UnmarshalTypeError ''number'' ''map[string]interface {}'')
     | Some (JString s) \<Rightarrow> Inl (UnmarshalTypeError ''string'' ''map[string]interface {}'')
     | Some (JArray items) \<Rightarrow> Inl (UnmarshalTypeError ''array'' ''map[string]interface {}'')
     | Some (JObject members) \<Rightarrow>
         (case badNumbers (JObject members) of
            n # _ \<Rightarrow> Inl (UnmarshalTypeError (''number '' @ n) ''float64'')
          | [] \<Rightarrow> Inr (Some (storeMembers members))))"

subsection \<open>Values and diagnostics of terraform-plugin-framework\<close>

text \<open>
  \<^verbatim>\<open>types.String\<close>, \<^verbatim>\<open>types.List\<close> and \<^verbatim>\<open>types.Map\<close> with string elements: a
  value is null, unknown or known.  The elements of a map are an association
  list in the order in which \<^verbatim>\<open>range\<close> visits them.
\<close>

datatype StringValue = StringNull | StringUnknown | StringValue string

datatype ListValue = ListNull | ListUnknown | ListValue "StringValue list"

datatype MapValue = MapNull | MapUnknown | MapValue "(string \<times> StringValue) list"

text \<open>
  The method \<^verbatim>\<open>String()\<close> of a string value of the plugin framework is its
  rendering for logs: \<^verbatim>\<open><unknown>\<close> and \<^verbatim>\<open><null>\<close> for an unknown and a null value,
  and a known value in Go syntax, \<^verbatim>\<open>fmt.Sprintf("%q", s.value)\<close>, between double
  quotes and with escapes (\<^verbatim>\<open>strconv.Quote\<close>).  This is the method \<^verbatim>\<open>Create\<close> calls on
  the elements of the program and on the values of the query.  \<^verbatim>\<open>ValueString()\<close>,
  which \<^verbatim>\<open>Create\<close> calls on the working directory, is the value itself, and the
  empty string for a null or unknown value.
\<close>

definition StringValue_String :: "(nat \<Rightarrow> bool) \<Rightarrow> StringValue \<Rightarrow> string" where
  "StringValue_String tab v =
    (case v of
       StringUnknown \<Rightarrow> ''<unknown>''
     | StringNull \<Rightarrow> ''<null>''
     | StringValue s \<Rightarrow> Quote tab s)"

definition ValueString :: "StringValue \<Rightarrow> string" where
  "ValueString v = (case v of StringValue s \<Rightarrow> s | _ \<Rightarrow> [])"

text \<open>\<^verbatim>\<open>Elements()\<close>: the elements of a known list or map, none otherwise.\<close>

definition ListValue_Elements :: "ListValue \<Rightarrow> StringValue list" where
  "ListValue_Elements l = (case l of ListValue xs \<Rightarrow> xs | _ \<Rightarrow> [])"

definition MapValue_Elements :: "MapValue \<Rightarrow> (string \<times> StringValue) list" where
  "MapValue_Elements m = (case m of MapValue xs \<Rightarrow> xs | _ \<Rightarrow> [])"

text \<open>The model of the resource: the struct \<^verbatim>\<open>execModelV0\<close>.\<close>

record execModelV0 =
  Id' :: StringValue
  Program :: ListValue
  WorkingDir :: StringValue
  Query :: MapValue
  Result :: MapValue

datatype severity = SeverityError | SeverityWarning

record diagnostic =
  Severity :: severity
  Summary :: string
  Detail :: string

text \<open>
  \<^verbatim>\<open>diag.Diagnostics\<close>: \<^verbatim>\<open>Append\<close> leaves out a diagnostic that the list already
  holds, \<^verbatim>\<open>AddError\<close> appends an error, \<^verbatim>\<open>HasError\<close> looks for one.
\<close>

definition Diagnostics_Append :: "diagnostic list \<Rightarrow> diagnostic list \<Rightarrow> diagnostic list" where
  "Diagnostics_Append diags new =
    foldl (\<lambda>acc d. if d \<in> set acc then acc else acc @ [d]) diags new"

definition Diagnostics_AddError :: "diagnostic list \<Rightarrow> string \<Rightarrow> string \<Rightarrow> diagnostic list" where
  "Diagnostics_AddError diags summary detail =
    Diagnostics_Append diags [\<lparr>Severity = SeverityError, Summary = summary, Detail = detail\<rparr>]"

definition HasError :: "diagnostic list \<Rightarrow> bool" where
  "HasError diags = list_ex (\<lambda>d. Severity d = SeverityError) diags"

text \<open>
  The request and the response of \<^verbatim>\<open>Create\<close>.  \<^verbatim>\<open>req.Plan.Get(ctx, &plan)\<close> reads
  the planned values into the struct and returns diagnostics; the request
  holds both results.  The state of a response is \<open>None\<close> until it is set.
  \<^verbatim>\<open>Read\<close> has a response of the same shape.
\<close>

record CreateRequest =
  Plan :: execModelV0
  Plan_Get_diags :: "diagnostic list"

record Response =
  State :: "execModelV0 option"
  Diagnostics :: "diagnostic list"

record ReadRequest =
  Req_State :: "execModelV0 option"

definition AddError :: "Response \<Rightarrow> string \<Rightarrow> string \<Rightarrow> Response" where
  "AddError resp summary detail =
    resp\<lparr>Diagnostics := Diagnostics_AddError (Diagnostics resp) summary detail\<rparr>"

text \<open>\<^verbatim>\<open>resp.State.Set(ctx, i)\<close>: the state holds the model; no diagnostics.\<close>

definition State_Set :: "Response \<Rightarrow> execModelV0 \<Rightarrow> Response \<times> diagnostic list" where
  "State_Set resp i = (resp\<lparr>State := Some i\<rparr>, [])"

subsection \<open>The machine: lookup path, child process, log\<close>

text \<open>
  \<^verbatim>\<open>exec.Cmd\<close> with the fields the resource sets or reads; \<open>Err\<close> is the error of
  the path lookup that \<^verbatim>\<open>exec.Command\<close> does for a bare program name.
\<close>

record Cmd =
  Path :: string
  Args :: "string list"
  Dir :: string
  Stdin :: string
  Err :: "string option"

text \<open>
  The error of \<^verbatim>\<open>cmd.Output()\<close>: an \<^verbatim>\<open>*exec.ExitError\<close> with the bytes captured
  from the standard error of the child (\<^verbatim>\<open>Stderr\<close>; a nil slice is the empty
  string) and the text of its process state, or another error with its text.
\<close>

datatype exec_error = ExitError string string | OtherError string

definition Error_text :: "exec_error \<Rightarrow> string" where
  "Error_text e = (case e of ExitError stderr state \<Rightarrow> state | OtherError t \<Rightarrow> t)"

text \<open>
  What the provider finds on the machine it runs on.  \<open>LookPath\<close> is
  \<^verbatim>\<open>exec.LookPath\<close> and \<open>Output\<close> is \<^verbatim>\<open>cmd.Output()\<close> under the context of the
  call: it starts the child, feeds the standard input, waits, and returns
  the standard output and the error.  \<open>isPrintTab\<close> is the table of
  \<^const>\<open>IsPrint\<close>.  The two texts are those of errors the libraries word.
\<close>

record env =
  GOOS :: string
  LookPath :: "string \<Rightarrow> string \<times> string option"
  filepath_Base :: "string \<Rightarrow> string"
  Output :: "Cmd \<Rightarrow> string \<times> exec_error option"
  isPrintTab :: "nat \<Rightarrow> bool"
  syntaxErrorText :: "string \<Rightarrow> string"
  conversionErrorText :: "(string \<times> json) list \<Rightarrow> string"

text \<open>
  What the provider does to the world, in order: a record written with
  \<^verbatim>\<open>tflog.Trace\<close> (message and fields), a child process run.
\<close>

datatype event = Trace string "(string \<times> string) list" | Run Cmd

type_synonym world = "event list"

text \<open>The commands run so far.\<close>

fun launched :: "world \<Rightarrow> Cmd list" where
  "launched [] = []"
| "launched (Run c # w) = c # launched w"
| "launched (Trace m fs # w) = launched w"

text \<open>\<^verbatim>\<open>exec.Command\<close> (and \<^verbatim>\<open>exec.CommandContext\<close>) and \<^verbatim>\<open>Cmd.String\<close>.\<close>

definition exec_Command :: "env \<Rightarrow> string \<Rightarrow> string list \<Rightarrow> Cmd" where
  "exec_Command env name arg =
    (let cmd = \<lparr>Path = name, Args = name # arg, Dir = [], Stdin = [], Err = None\<rparr> in
     if filepath_Base env name = name then
       (let (lp, err) = LookPath env name in
        cmd\<lparr>Path := (if lp \<noteq> [] then lp else name), Err := err\<rparr>)
     else cmd)"

definition Cmd_String :: "Cmd \<Rightarrow> string" where
  "Cmd_String c =
    (if Err c \<noteq> None then strings_Join (Args c) '' ''
     else Path c @ concat (map (\<lambda>a. CHR '' '' # a) (tl (Args c))))"

text \<open>\<^verbatim>\<open>err.Error()\<close> of an error of \<^verbatim>\<open>json.Unmarshal\<close>.\<close>

definition json_error_text :: "env \<Rightarrow> string \<Rightarrow> json_error \<Rightarrow> string" where
  "json_error_text env data e =
    (case e of
       SyntaxError \<Rightarrow> syntaxErrorText env data
     | UnmarshalTypeError v t \<Rightarrow> ''json: cannot unmarshal '' @ v @ '' into Go value of type '' @ t)"

text \<open>
  \<^verbatim>\<open>types.MapValueFrom(ctx, types.StringType, result)\<close>: a nil map is the null
  map; a map whose values are all Go strings is the known map of them; a
  value of another kind is an error diagnostic of the framework, and the
  result is the unknown map.
\<close>

fun stringOf :: "json \<Rightarrow> string option" where
  "stringOf (JString s) = Some s"
| "stringOf _ = None"

definition types_MapValueFrom :: "env \<Rightarrow> gomap_any \<Rightarrow> MapValue \<times> diagnostic list" where
  "types_MapValueFrom env elements =
    (case elements of
       None \<Rightarrow> (MapNull, [])
     | Some m \<Rightarrow>
         if list_all (\<lambda>kv. stringOf (snd kv) \<noteq> None) m then
           (MapValue (map (\<lambda>kv. (fst kv, StringValue (the (stringOf (snd kv))))) m), [])
         else
           (MapUnknown,
            [\<lparr>Severity = SeverityError, Summary = ''Value Conversion Error'',
              Detail = conversionErrorText env m\<rparr>]))"

subsection \<open>The resource: Create and Read\<close>

text \<open>The texts of the diagnostics of \<^verbatim>\<open>Create\<close>.\<close>

definition detailProgramMissing :: string where
  "detailProgramMissing =
    ''The data source was configured without a program to execute. '' @
    ''Verify the configuration contains at least one non-empty value.''"

definition detailQueryHandling :: string where
  "detailQueryHandling =
    ''The data source received an unexpected error while attempting to parse the query. '' @
    ''This is always a bug in the external provider code and should be reported to the provider developers.''"

definition detailLookupFailed :: "string \<Rightarrow> string \<Rightarrow> string \<Rightarrow> string" where
  \<open>detailLookupFailed goos program err =
    ''The data source received an unexpected error while attempting to find the program.\<newline>'' @
    ''\<newline>'' @
    ''The program must be accessible according to the platform where Terraform is running.\<newline>'' @
    ''\<newline>'' @
    ''If the expected program should be automatically found on the platform where Terraform is running, '' @
    ''ensure that the program is in an expected directory. On Unix-based platforms, these directories are '' @
    ''typically searched based on the '$PATH' environment variable. On Windows-based platforms, these '' @
    ''directories are typically searched based on the '%PATH%' environment variable.\<newline>'' @
    ''\<newline>'' @
    ''If the expected program is relative to the Terraform configuration, it is recommended that the '' @
    ''program name includes the interpolated value of 'path.module' before the program name to ensure '' @
    ''that it is compatible with varying module usage. For example: "${path.module}/my-program"\<newline>'' @
    ''\<newline>'' @
    ''The program must also be executable according to the platform where Terraform is running. '' @
    ''On Unix-based platforms, the file on the filesystem must have the executable bit set. '' @
    ''On Windows-based platforms, no action is typically necessary.\<newline>'' @
    ''\<newline>Platform: '' @ goos @
    ''\<newline>Program: '' @ program @
    ''\<newline>Error: '' @ err\<close>

definition detailExitStderr :: "string \<Rightarrow> string \<Rightarrow> string \<Rightarrow> string" where
  "detailExitStderr path stderr state =
    ''The data source received an unexpected error while attempting to execute the program.'' @
    ''\<newline>\<newline>Program: '' @ path @
    ''\<newline>Error Message: '' @ stderr @
    ''\<newline>State: '' @ state"

definition detailExitSilent :: "string \<Rightarrow> string \<Rightarrow> string" where
  "detailExitSilent path state =
    ''The data source received an unexpected error while attempting to execute the program.\<newline>\<newline>'' @
    ''The program was executed, however it returned no additional error messaging.'' @
    ''\<newline>\<newline>Program: '' @ path @
    ''\<newline>State: '' @ state"

definition detailExecError :: "string \<Rightarrow> string \<Rightarrow> string" where
  "detailExecError path err =
    ''The data source received an unexpected error while attempting to execute the program.'' @
    ''\<newline>\<newline>Program: '' @ path @
    ''\<newline>Error: '' @ err"

definition detailUnexpectedResults :: "string \<Rightarrow> string \<Rightarrow> string" where
  \<open>detailUnexpectedResults path err =
    ''The data source received unexpected results after executing the program.\<newline>'' @
    ''\<newline>'' @
    ''Program output must be a JSON encoded map of string keys and string values.\<newline>'' @
    ''\<newline>'' @
    ''If the error is unclear, the output can be viewed by enabling Terraform's logging at TRACE level. '' @
    ''Terraform documentation on logging: https://www.terraform.io/internals/debugging\<newline>'' @
    ''\<newline>Program: '' @ path @
    ''\<newline>Result Error: '' @ err\<close>

text \<open>
  The first loop of \<^verbatim>\<open>Create\<close> (lines 146 to 152): each element of the list is
  rendered with \<^verbatim>\<open>String()\<close>, the double quotes are taken out of the rendering,
  and what is left is appended to \<^verbatim>\<open>program\<close> unless it is empty.
\<close>

fun programLoop :: "(nat \<Rightarrow> bool) \<Rightarrow> StringValue list \<Rightarrow> string list \<Rightarrow> string list" where
  "programLoop tab [] program = program"
| "programLoop tab (programArgRaw # rest) program =
    (let programArg = strings_Replace (StringValue_String tab programArgRaw) dquote [] in
     if programArg = [] then programLoop tab rest program
     else programLoop tab rest (program @ [programArg]))"

text \<open>The second loop (lines 161 to 167), over the entries of the query.\<close>

fun queryLoop :: "(nat \<Rightarrow> bool) \<Rightarrow> (string \<times> StringValue) list \<Rightarrow> gomap \<Rightarrow> gomap" where
  "queryLoop tab [] query = query"
| "queryLoop tab ((key, val) # rest) query =
    (let valArg = strings_Replace (StringValue_String tab val) dquote [] in
     if valArg = [] then queryLoop tab rest query
     else queryLoop tab rest (AList.update key valArg query))"

text \<open>
  Lines 208 to 232: the diagnostic for an error of \<^verbatim>\<open>cmd.Output()\<close>.
\<close>

definition executionFailed :: "Response \<Rightarrow> Cmd \<Rightarrow> exec_error \<Rightarrow> Response" where
  "executionFailed resp cmd err =
    (case err of
       ExitError stderr state \<Rightarrow>
         if length stderr > 0 then
           AddError resp ''External Program Execution Failed''
             (detailExitStderr (Path cmd) stderr (Error_text err))
         else
           AddError resp ''External Program Execution Failed''
             (detailExitSilent (Path cmd) (Error_text err))
     | OtherError t \<Rightarrow>
         AddError resp ''External Program Execution Failed''
           (detailExecError (Path cmd) (Error_text err)))"

text \<open>
  Lines 234 to 263: the output is decoded; on success the model gets its
  identifier and the result, and is stored as the state.
\<close>

definition decodeResult :: "env \<Rightarrow> execModelV0 \<Rightarrow> Response \<Rightarrow> Cmd \<Rightarrow> string \<Rightarrow> Response" where
  "decodeResult env plan resp cmd resultJson =
    (case json_Unmarshal resultJson of
       Inl err \<Rightarrow>
         AddError resp ''Unexpected External Program Results''
           (detailUnexpectedResults (Path cmd) (json_error_text env resultJson err))
     | Inr result \<Rightarrow>
         (let i = plan\<lparr>Id' := StringValue ''example-id''\<rparr>;
              (res, d) = types_MapValueFrom env result;
              i = i\<lparr>Result := res\<rparr>;
              resp = (if length d > 0
                      then resp\<lparr>Diagnostics := Diagnostics_Append (Diagnostics resp) d\<rparr>
                      else resp);
              (resp, diags) = State_Set resp i
          in resp\<lparr>Diagnostics := Diagnostics_Append (Diagnostics resp) diags\<rparr>))"

text \<open>
  The values \<^verbatim>\<open>Create\<close> computes on its way: \<^verbatim>\<open>program\<close> (lines 144 to 152),
  \<^verbatim>\<open>query\<close> (lines 159 to 167) and \<^verbatim>\<open>cmd\<close> (lines 198 to 200).
\<close>

definition programOf :: "env \<Rightarrow> execModelV0 \<Rightarrow> string list" where
  "programOf env plan = programLoop (isPrintTab env) (ListValue_Elements (Program plan)) []"

definition queryOf :: "env \<Rightarrow> execModelV0 \<Rightarrow> gomap" where
  "queryOf env plan = queryLoop (isPrintTab env) (MapValue_Elements (Query plan)) []"

definition commandOf :: "env \<Rightarrow> execModelV0 \<Rightarrow> string list \<Rightarrow> string \<Rightarrow> Cmd" where
  "commandOf env plan program queryJson =
    (exec_Command env (hd program) (tl program))
      \<lparr>Dir := ValueString (WorkingDir plan), Stdin := queryJson\<rparr>"

text \<open>
  \<^verbatim>\<open>programResource.Create\<close>.  The response and the world are passed in and
  returned.
\<close>

definition Create :: "env \<Rightarrow> CreateRequest \<Rightarrow> Response \<times> world \<Rightarrow> Response \<times> world" where
  "Create env req rw =
    (let resp = fst rw; w = snd rw;
         plan = Plan req;
         diags = Plan_Get_diags req;
         resp = resp\<lparr>Diagnostics := Diagnostics_Append (Diagnostics resp) diags\<rparr>
     in
     if HasError (Diagnostics resp) then (resp, w)
     else
       let program = programOf env plan in
       if length program = 0 then
         (AddError resp ''External Program Missing'' detailProgramMissing, w)
       else
         let query = queryOf env plan in
         case json_Marshal query of
           Inl err \<Rightarrow> (AddError resp ''Query Handling Failed'' detailQueryHandling, w)
         | Inr queryJson \<Rightarrow>
             (case snd (LookPath env (hd program)) of
                Some err \<Rightarrow>
                  (AddError resp ''External Program Lookup Failed''
                     (detailLookupFailed (GOOS env) (hd program) err), w)
              | None \<Rightarrow>
                  let cmd = commandOf env plan program queryJson;
                      w = w @ [Trace ''Executing external program''
                                 [(''program'', Cmd_String cmd)]];
                      resultJson = fst (Output env cmd);
                      err = snd (Output env cmd);
                      w = w @ [Run cmd];
                      w = w @ [Trace ''Executed external program''
                                 [(''program'', Cmd_String cmd), (''output'', resultJson)]]
                  in
                  case err of
                    Some e \<Rightarrow> (executionFailed resp cmd e, w)
                  | None \<Rightarrow> (decodeResult env plan resp cmd resultJson, w)))"

text \<open>
  \<^verbatim>\<open>programResource.Read\<close>: the body of the function is empty.  The framework
  has put the stored state into the response before the call.
\<close>

definition Read :: "ReadRequest \<Rightarrow> Response \<times> world \<Rightarrow> Response \<times> world" where
  "Read req rw = rw"

subsection \<open>Stages of Create, for stating what it does\<close>

text \<open>
  The response after the plan has been read (lines 138 and 139), the command
  that \<^verbatim>\<open>Create\<close> builds from a plan, and the condition under which \<^verbatim>\<open>Create\<close>
  gets as far as running it: the plan was read without an error, some program
  element is left after the first loop, and the lookup of the first one has
  no error.
\<close>

definition planRead :: "CreateRequest \<Rightarrow> Response \<Rightarrow> Response" where
  "planRead req resp =
    resp\<lparr>Diagnostics := Diagnostics_Append (Diagnostics resp) (Plan_Get_diags req)\<rparr>"

definition startedCmd :: "env \<Rightarrow> execModelV0 \<Rightarrow> Cmd" where
  "startedCmd env plan =
    commandOf env plan (programOf env plan) (marshalMap (queryOf env plan))"

definition launches :: "env \<Rightarrow> CreateRequest \<Rightarrow> Response \<Rightarrow> bool" where
  "launches env req resp =
    (\<not> HasError (Diagnostics (planRead req resp)) \<and>
     programOf env (Plan req) \<noteq> [] \<and>
     snd (LookPath env (hd (programOf env (Plan req)))) = None)"

text \<open>The three records \<^verbatim>\<open>Create\<close> leaves in the world when it runs a command.\<close>

definition runEvents :: "env \<Rightarrow> Cmd \<Rightarrow> event list" where
  "runEvents env c =
    [Trace ''Executing external program'' [(''program'', Cmd_String c)],
     Run c,
     Trace ''Executed external program''
       [(''program'', Cmd_String c), (''output'', fst (Output env c))]]"

text \<open>The rendering of a string value without its double quotes (lines 147 and 162).\<close>

definition stripped :: "(nat \<Rightarrow> bool) \<Rightarrow> StringValue \<Rightarrow> string" where
  "stripped tab v = strings_Replace (StringValue_String tab v) dquote []"

subsection \<open>A machine and plans for examples\<close>

text \<open>
  A machine in the manner of the acceptance tests of the repository: every
  program is found where it is named, and the child writes a fixed output
  and ends with a fixed error, as the stub program of the tests does.
\<close>

definition found :: "string \<Rightarrow> string \<times> string option" where
  "found name = (name, None)"

definition unixBase :: "string \<Rightarrow> string" where
  "unixBase p =
    (let q = rev (dropWhile (\<lambda>c. c = CHR ''/'') (rev p)) in
     if p = [] then ''.''
     else if q = [] then ''/''
     else rev (takeWhile (\<lambda>c. c \<noteq> CHR ''/'') (rev q)))"

definition answer :: "string \<Rightarrow> exec_error option \<Rightarrow> Cmd \<Rightarrow> string \<times> exec_error option" where
  "answer out err c = (out, err)"

definition noTable :: "nat \<Rightarrow> bool" where
  "noTable r = False"

definition someText :: "'a \<Rightarrow> string" where
  "someText x = ''(text of the library)''"

definition stubEnv :: "string \<Rightarrow> exec_error option \<Rightarrow> env" where
  "stubEnv out err =
    \<lparr>GOOS = ''linux'', LookPath = found, filepath_Base = unixBase, Output = answer out err,
     isPrintTab = noTable, syntaxErrorText = someText, conversionErrorText = someText\<rparr>"

text \<open>A plan with the given program and query, all values known strings.\<close>

definition knownEntry :: "string \<times> string \<Rightarrow> string \<times> StringValue" where
  "knownEntry kv = (fst kv, StringValue (snd kv))"

definition planOf :: "string list \<Rightarrow> (string \<times> string) list \<Rightarrow> execModelV0" where
  "planOf program query =
    \<lparr>Id' = StringUnknown, Program = ListValue (map StringValue program),
     WorkingDir = StringNull, Query = MapValue (map knownEntry query),
     Result = MapUnknown\<rparr>"

definition requestOf :: "string list \<Rightarrow> (string \<times> string) list \<Rightarrow> CreateRequest" where
  "requestOf program query = \<lparr>Plan = planOf program query, Plan_Get_diags = []\<rparr>"

definition emptyResponse :: Response where
  "emptyResponse = \<lparr>State = None, Diagnostics = []\<rparr>"


subsection \<open>What \<^verbatim>\<open>cmd.Output()\<close> keeps of the standard error\<close>

text \<open>
  \<^verbatim>\<open>Create\<close> does not set \<^verbatim>\<open>cmd.Stderr\<close>, so \<^verbatim>\<open>cmd.Output()\<close> collects the standard
  error of the child in a \<^verbatim>\<open>prefixSuffixSaver\<close> of \<^verbatim>\<open>os/exec\<close> with \<^verbatim>\<open>N = 32 << 10\<close>
  and stores its \<^verbatim>\<open>Bytes()\<close> in the \<^verbatim>\<open>*exec.ExitError\<close>.  In whatever pieces the
  bytes arrive, the saver keeps the first \<open>N\<close> bytes written, the last \<open>N\<close>
  bytes of what follows them, and the number of bytes it has dropped between
  the two; \<^verbatim>\<open>Bytes()\<close> puts a note of that number between the two parts.
\<close>

fun FormatInt :: "nat \<Rightarrow> string" where
  "FormatInt n =
    (if n < 10 then [''0123456789'' ! n]
     else FormatInt (n div 10) @ [''0123456789'' ! (n mod 10)])"

declare FormatInt.simps [simp del]

definition prefixSuffixSaver_Bytes :: "nat \<Rightarrow> string \<Rightarrow> string" where
  "prefixSuffixSaver_Bytes N written =
    (let pre = take N written;
         rest = drop N written;
         skipped = length rest - N;
         suf = drop skipped rest
     in if skipped = 0 then pre @ suf
        else pre @ ''\<newline>... omitting '' @ FormatInt skipped @ '' bytes ...\<newline>'' @ suf)"

text \<open>
  A child process as \<^verbatim>\<open>cmd.Output()\<close> sees it: the bytes it writes on its
  standard output and on its standard error, and how it ends (\<open>None\<close> for
  the exit status 0, or the text of the process state, such as
  \<^verbatim>\<open>exit status 1\<close>).
\<close>

record child =
  wrote_stdout :: string
  wrote_stderr :: string
  exit_state :: "string option"

definition Cmd_Output :: "child \<Rightarrow> string \<times> exec_error option" where
  "Cmd_Output ch =
    (wrote_stdout ch,
     case exit_state ch of
       None \<Rightarrow> None
     | Some state \<Rightarrow> Some (ExitError (prefixSuffixSaver_Bytes (32 * 1024) (wrote_stderr ch)) state))"

text \<open>The machine of the examples with such a child behind every command.\<close>

definition childEnv :: "child \<Rightarrow> env" where
  "childEnv ch = stubEnv (fst (Cmd_Output ch)) (snd (Cmd_Output ch))"

subsection \<open>Facts about the library functions\<close>

lemma strings_Replace_filter: "strings_Replace s old [] = filter (\<lambda>c. c \<noteq> old) s"
  by (induction s) (simp_all add: strings_Replace_def)

lemma of_char_char_of_small: "n < 256 \<Longrightarrow> (of_char (char_of (n::nat)) :: nat) = n"
  by (simp add: of_char_of)

lemma AppendRune_low: "r \<le> 0x7F \<Longrightarrow> AppendRune r = [char_of r]"
  by (simp add: AppendRune_def)

lemma AppendRune_high:
  assumes "\<not> r \<le> 0x7F"
  shows "0x80 \<le> (of_char (hd (AppendRune r)) :: nat)"
proof (cases "r \<le> 0x7FF")
  case True
  then have "r div 0x40 < 0x20" by simp
  then have "(of_char (char_of (0xC0 + r div 0x40)) :: nat) = 0xC0 + r div 0x40"
    by (intro of_char_char_of_small) simp
  with True assms show ?thesis
    by (simp add: AppendRune_def)
next
  case False
  define r' where "r' = (if \<not> ValidRune r then RuneError else r)"
  have le: "r' \<le> 0x10FFFF"
    by (auto simp: r'_def ValidRune_def RuneError_def)
  show ?thesis
  proof (cases "r' \<le> 0xFFFF")
    case True
    then have "r' div 0x1000 < 0x10" by simp
    then have "(of_char (char_of (0xE0 + r' div 0x1000)) :: nat) = 0xE0 + r' div 0x1000"
      by (intro of_char_char_of_small) simp
    with True False assms show ?thesis
      by (simp add: AppendRune_def Let_def r'_def [symmetric])
  next
    case big: False
    from le have "r' div 0x40000 < 0x10" by simp
    then have "(of_char (char_of (0xF0 + r' div 0x40000)) :: nat) = 0xF0 + r' div 0x40000"
      by (intro of_char_char_of_small) simp
    with big False assms show ?thesis
      by (simp add: AppendRune_def Let_def r'_def [symmetric])
  qed
qed

lemma AppendRune_not_quote:
  assumes "r \<noteq> 0x22"
  shows "filter (\<lambda>c. c \<noteq> dquote) (AppendRune r) \<noteq> []"
proof -
  have "hd (AppendRune r) \<noteq> dquote"
  proof (cases "r \<le> 0x7F")
    case True
    then have "(of_char (hd (AppendRune r)) :: nat) = r"
      by (simp add: AppendRune_low of_char_char_of_small)
    with assms show ?thesis
      by (auto simp: dquote_def)
  next
    case False
    from AppendRune_high [OF this] show ?thesis
      by (auto simp: dquote_def)
  qed
  moreover have "AppendRune r \<noteq> []"
    by (simp add: AppendRune_def Let_def)
  ultimately show ?thesis
    by (cases "AppendRune r") auto
qed

lemma bslash_not_dquote [simp]: "bslash \<noteq> dquote"
  by (simp add: bslash_def dquote_def)

lemma of_char_dquote [simp]: "(of_char dquote :: nat) = 0x22"
  by (simp add: dquote_def)

lemma of_char_bslash [simp]: "(of_char bslash :: nat) = 0x5C"
  by (simp add: bslash_def)

lemma appendEscapedRune_not_quotes:
  "filter (\<lambda>c. c \<noteq> dquote) (appendEscapedRune tab r) \<noteq> []"
proof (cases "r = 0x22")
  case True
  then show ?thesis
    by (simp add: appendEscapedRune_def)
next
  case False
  then show ?thesis
    using AppendRune_not_quote [of r]
    by (simp add: appendEscapedRune_def escapeSwitch_def del: hexDigits.simps)
qed

lemma quoteStep_not_quotes:
  "filter (\<lambda>c. c \<noteq> dquote) (fst (quoteStep tab s)) \<noteq> []"
  using appendEscapedRune_not_quotes
  by (simp add: quoteStep_def Let_def split: prod.splits)

lemma quoteBody_Nil [simp]: "quoteBody tab [] = []"
  by (simp add: quoteBody.simps)

lemma quoteBody_stripped_empty:
  "filter (\<lambda>c. c \<noteq> dquote) (quoteBody tab s) = [] \<longleftrightarrow> s = []"
proof (cases "s = []")
  case True
  then show ?thesis by simp
next
  case False
  then have "quoteBody tab s = fst (quoteStep tab s) @ quoteBody tab (drop (snd (quoteStep tab s)) s)"
    by (subst quoteBody.simps) simp
  with False quoteStep_not_quotes [of tab s] show ?thesis
    by simp
qed

lemma stripped_known: "stripped tab (StringValue s) = filter (\<lambda>c. c \<noteq> dquote) (quoteBody tab s)"
  by (simp add: stripped_def StringValue_String_def Quote_def strings_Replace_filter)

lemma stripped_empty_iff: "stripped tab (StringValue s) = [] \<longleftrightarrow> s = []"
  by (simp add: stripped_known quoteBody_stripped_empty)

lemma stripped_no_quote: "dquote \<notin> set (stripped tab v)"
  by (simp add: stripped_def strings_Replace_filter)

lemma programLoop_eq:
  "programLoop tab vs acc = acc @ filter (\<lambda>a. a \<noteq> []) (map (stripped tab) vs)"
  by (induction vs arbitrary: acc) (simp_all add: Let_def stripped_def)

lemma queryLoop_all_empty:
  "list_all (\<lambda>kv. snd kv = StringValue []) kvs \<Longrightarrow> queryLoop tab kvs acc = acc"
proof (induction kvs arbitrary: acc)
  case Nil
  then show ?case by simp
next
  case (Cons kv kvs)
  obtain k v where kv: "kv = (k, v)" by (cases kv)
  with Cons.prems have "v = StringValue []" by simp
  then have "stripped tab v = []"
    by (simp add: stripped_empty_iff)
  with Cons kv show ?case
    by (simp add: stripped_def)
qed

lemma set_update_values:
  "snd ` set (AList.update k v al) \<subseteq> insert v (snd ` set al)"
  by (induction al) auto

lemma queryLoop_values:
  "snd ` set (queryLoop tab kvs acc) \<subseteq> snd ` set acc \<union> stripped tab ` snd ` set kvs"
proof (induction kvs arbitrary: acc)
  case Nil
  then show ?case by simp
next
  case (Cons kv kvs)
  obtain k v where kv: "kv = (k, v)" by (cases kv)
  show ?case
  proof (cases "stripped tab v = []")
    case True
    with kv Cons.IH [of acc] show ?thesis
      by (auto simp: stripped_def)
  next
    case False
    with kv Cons.IH [of "AList.update k (stripped tab v) acc"]
      set_update_values [of k "stripped tab v" acc]
    show ?thesis
      by (auto simp: stripped_def Let_def)
  qed
qed

lemma quoteBody_Cons_plain:
  assumes "0x20 \<le> (of_char c :: nat)" "(of_char c :: nat) \<le> 0x7E"
    "(of_char c :: nat) \<noteq> 0x22" "(of_char c :: nat) \<noteq> 0x5C"
  shows "quoteBody tab (c # cs) = c # quoteBody tab cs"
proof -
  have "quoteStep tab (c # cs) = ([c], 1)"
    using assms
    by (simp add: quoteStep_def appendEscapedRune_def IsPrint_def AppendRune_def RuneError_def)
  then show ?thesis
    by (subst quoteBody.simps) simp
qed

lemma appendEscapedRune_dquote: "appendEscapedRune tab (of_char dquote) = [bslash, dquote]"
  unfolding appendEscapedRune_def by (simp only: char_of_char if_True simp_thms)

lemma quoteBody_Cons_dquote:
  "quoteBody tab (CHR 0x22 # cs) = CHR 0x5C # CHR 0x22 # quoteBody tab cs"
proof -
  have "quoteStep tab (dquote # cs) = (appendEscapedRune tab (of_char dquote), 1)"
    by (simp add: quoteStep_def RuneError_def)
  then have "quoteStep tab (CHR 0x22 # cs) = ([CHR 0x5C, CHR 0x22], 1)"
    by (simp only: appendEscapedRune_dquote) (simp add: dquote_def bslash_def)
  then show ?thesis
    by (subst quoteBody.simps) simp
qed

lemma quoteBody_plain:
  assumes "list_all (\<lambda>c. 0x20 \<le> (of_char c :: nat) \<and> (of_char c :: nat) \<le> 0x7E
             \<and> (of_char c :: nat) \<noteq> 0x22 \<and> (of_char c :: nat) \<noteq> 0x5C) s"
  shows "quoteBody tab s = s"
  using assms by (induction s) (simp_all add: quoteBody_Cons_plain)

lemma jsonStringBody_Nil [simp]: "jsonStringBody [] = []"
  by (simp add: jsonStringBody.simps)

lemma jsonStringBody_Cons_safe:
  assumes "htmlSafeSet (of_char c)"
  shows "jsonStringBody (c # cs) = c # jsonStringBody cs"
proof -
  have "jsonStep (c # cs) = ([c], 1)"
    using assms by (simp add: jsonStep_def htmlSafeSet_def)
  then show ?thesis
    by (subst jsonStringBody.simps) simp
qed

lemma jsonStringBody_Cons_bslash:
  "jsonStringBody (CHR 0x5C # cs) = CHR 0x5C # CHR 0x5C # jsonStringBody cs"
proof -
  have "jsonStep (CHR 0x5C # cs) = ([CHR 0x5C, CHR 0x5C], 1)"
    by (simp add: jsonStep_def htmlSafeSet_def bslash_def)
  then show ?thesis
    by (subst jsonStringBody.simps) simp
qed

lemma jsonStringBody_Cons_dquote:
  "jsonStringBody (CHR 0x22 # cs) = CHR 0x5C # CHR 0x22 # jsonStringBody cs"
proof -
  have "jsonStep (CHR 0x22 # cs) = ([CHR 0x5C, CHR 0x22], 1)"
    by (simp add: jsonStep_def htmlSafeSet_def bslash_def)
  then show ?thesis
    by (subst jsonStringBody.simps) simp
qed

lemma marshalMap_Nil: "marshalMap [] = ''{}''"
  by (simp add: marshalMap_def)

lemma unquote_Nil [simp]: "unquote [] = []"
  by (simp add: unquote.simps)

lemma unquote_Cons_ascii:
  "c \<noteq> bslash \<Longrightarrow> (of_char c :: nat) < 0x80 \<Longrightarrow> unquote (c # cs) = c # unquote cs"
  by (subst unquote.simps) (simp add: unquoteStep_def)

subsection \<open>Facts about diagnostics\<close>

lemma Diagnostics_Append_Nil [simp]: "Diagnostics_Append diags [] = diags"
  by (simp add: Diagnostics_Append_def)

lemma Diagnostics_Append_single:
  "Diagnostics_Append diags [d] = (if d \<in> set diags then diags else diags @ [d])"
  by (simp add: Diagnostics_Append_def)

lemma HasError_iff: "HasError diags \<longleftrightarrow> (\<exists>d \<in> set diags. Severity d = SeverityError)"
  by (simp add: HasError_def list_ex_iff)

lemma Diagnostics_Append_error:
  "\<not> HasError diags \<Longrightarrow> Severity d = SeverityError \<Longrightarrow> Diagnostics_Append diags [d] = diags @ [d]"
  by (auto simp: Diagnostics_Append_single HasError_iff)

lemma AddError_new:
  "\<not> HasError (Diagnostics resp) \<Longrightarrow>
   AddError resp summary detail =
     resp\<lparr>Diagnostics := Diagnostics resp @
       [\<lparr>Severity = SeverityError, Summary = summary, Detail = detail\<rparr>]\<rparr>"
  by (simp add: AddError_def Diagnostics_AddError_def Diagnostics_Append_error)

lemma AddError_State [simp]: "State (AddError resp summary detail) = State resp"
  by (simp add: AddError_def)

lemma planRead_State [simp]: "State (planRead req resp) = State resp"
  by (simp add: planRead_def)

subsection \<open>The paths through Create\<close>

lemma Create_plan_error:
  "HasError (Diagnostics (planRead req resp)) \<Longrightarrow>
   Create env req (resp, w) = (planRead req resp, w)"
  by (simp add: Create_def planRead_def Let_def)

lemma Create_program_missing:
  "\<not> HasError (Diagnostics (planRead req resp)) \<Longrightarrow> programOf env (Plan req) = [] \<Longrightarrow>
   Create env req (resp, w) =
     (AddError (planRead req resp) ''External Program Missing'' detailProgramMissing, w)"
  by (simp add: Create_def planRead_def Let_def)

lemma Create_lookup_failed:
  "\<not> HasError (Diagnostics (planRead req resp)) \<Longrightarrow> programOf env (Plan req) \<noteq> [] \<Longrightarrow>
   snd (LookPath env (hd (programOf env (Plan req)))) = Some err \<Longrightarrow>
   Create env req (resp, w) =
     (AddError (planRead req resp) ''External Program Lookup Failed''
        (detailLookupFailed (GOOS env) (hd (programOf env (Plan req))) err), w)"
  by (simp add: Create_def planRead_def Let_def json_Marshal_def)

lemma Create_launches:
  "launches env req resp \<Longrightarrow>
   Create env req (resp, w) =
     ((case snd (Output env (startedCmd env (Plan req))) of
         Some e \<Rightarrow> executionFailed (planRead req resp) (startedCmd env (Plan req)) e
       | None \<Rightarrow>
           decodeResult env (Plan req) (planRead req resp) (startedCmd env (Plan req))
             (fst (Output env (startedCmd env (Plan req))))),
      w @ runEvents env (startedCmd env (Plan req)))"
  by (simp add: Create_def launches_def planRead_def startedCmd_def runEvents_def Let_def
      json_Marshal_def split: option.splits)

lemma Create_not_launches:
  assumes nl: "\<not> launches env req resp"
  shows "snd (Create env req (resp, w)) = w \<and>
   State (fst (Create env req (resp, w))) = State resp"
proof (cases "HasError (Diagnostics (planRead req resp))")
  case True
  then show ?thesis
    by (simp add: Create_plan_error)
next
  case noerr: False
  show ?thesis
  proof (cases "programOf env (Plan req) = []")
    case True
    with noerr show ?thesis
      by (simp add: Create_program_missing)
  next
    case False
    with noerr nl
    obtain err where "snd (LookPath env (hd (programOf env (Plan req)))) = Some err"
      by (auto simp: launches_def)
    with noerr False show ?thesis
      by (simp add: Create_lookup_failed)
  qed
qed

lemma launched_append [simp]: "launched (w @ w') = launched w @ launched w'"
  by (induction w rule: launched.induct) simp_all

lemma launched_runEvents [simp]: "launched (runEvents env c) = [c]"
  by (simp add: runEvents_def)

lemma decodeResult_error:
  "json_Unmarshal out = Inl e \<Longrightarrow>
   decodeResult env plan resp c out =
     AddError resp ''Unexpected External Program Results''
       (detailUnexpectedResults (Path c) (json_error_text env out e))"
  by (simp add: decodeResult_def)

lemma decodeResult_nil:
  "json_Unmarshal out = Inr None \<Longrightarrow>
   decodeResult env plan resp c out =
     resp\<lparr>State := Some (plan\<lparr>Id' := StringValue ''example-id'', Result := MapNull\<rparr>)\<rparr>"
  by (simp add: decodeResult_def types_MapValueFrom_def State_Set_def)

lemma decodeResult_strings:
  "json_Unmarshal out = Inr (Some m) \<Longrightarrow> list_all (\<lambda>kv. stringOf (snd kv) \<noteq> None) m \<Longrightarrow>
   decodeResult env plan resp c out =
     resp\<lparr>State := Some (plan\<lparr>Id' := StringValue ''example-id'',
       Result := MapValue (map (\<lambda>kv. (fst kv, StringValue (the (stringOf (snd kv))))) m)\<rparr>)\<rparr>"
  by (simp add: decodeResult_def types_MapValueFrom_def State_Set_def)

lemma decodeResult_other:
  "json_Unmarshal out = Inr (Some m) \<Longrightarrow> \<not> list_all (\<lambda>kv. stringOf (snd kv) \<noteq> None) m \<Longrightarrow>
   decodeResult env plan resp c out =
     resp\<lparr>State := Some (plan\<lparr>Id' := StringValue ''example-id'', Result := MapUnknown\<rparr>),
          Diagnostics := Diagnostics_Append (Diagnostics resp)
            [\<lparr>Severity = SeverityError, Summary = ''Value Conversion Error'',
              Detail = conversionErrorText env m\<rparr>]\<rparr>"
  by (simp add: decodeResult_def types_MapValueFrom_def State_Set_def)

lemma executionFailed_State [simp]: "State (executionFailed resp c e) = State resp"
  by (cases e) (simp_all add: executionFailed_def)

subsection \<open>Facts for evaluating the examples\<close>

lemma strings_Replace_String_known:
  "strings_Replace (StringValue_String tab (StringValue s)) dquote [] =
     filter (\<lambda>c. c \<noteq> dquote) (quoteBody tab s)"
  by (simp add: StringValue_String_def Quote_def strings_Replace_filter)

lemma planRead_empty [simp]: "planRead (requestOf program query) emptyResponse = emptyResponse"
  by (simp add: planRead_def requestOf_def emptyResponse_def)

lemma Diagnostics_empty [simp]: "Diagnostics emptyResponse = []"
  by (simp add: emptyResponse_def)

lemma State_empty [simp]: "State emptyResponse = None"
  by (simp add: emptyResponse_def)

lemma HasError_Nil [simp]: "\<not> HasError []"
  by (simp add: HasError_def)

lemma Plan_requestOf [simp]: "Plan (requestOf program query) = planOf program query"
  by (simp add: requestOf_def)

lemma programOf_planOf:
  "programOf env (planOf program query) =
     filter (\<lambda>a. a \<noteq> []) (map (\<lambda>s. filter (\<lambda>c. c \<noteq> dquote) (quoteBody (isPrintTab env) s)) program)"
  by (simp add: programOf_def planOf_def ListValue_Elements_def programLoop_eq stripped_known
      comp_def)

lemma LookPath_stubEnv [simp]: "LookPath (stubEnv out err) name = (name, None)"
  by (simp add: stubEnv_def found_def)

lemma Output_stubEnv [simp]: "Output (stubEnv out err) c = (out, err)"
  by (simp add: stubEnv_def answer_def)

lemma launches_stubEnv:
  "launches (stubEnv out err) (requestOf program query) emptyResponse \<longleftrightarrow>
   programOf (stubEnv out err) (planOf program query) \<noteq> []"
  by (simp add: launches_def)

lemmas quote_eval =
  quoteBody_Cons_plain quoteBody_Cons_dquote dquote_def bslash_def

lemmas json_eval =
  json_parse_def tokenize.simps isSpace_def isDigit_def isEscape_def dquote_def bslash_def
  unquote_Cons_ascii scanNumber_def intPart_def fracPart_def expPart_def digitsLen_def
  step_def pushParseState_def maxNestingDepth_def

lemma Create_no_missing_error:
  assumes noerr: "\<not> HasError (Diagnostics (planRead req resp))"
    and prog: "programOf env (Plan req) \<noteq> []"
  shows "\<not> list_ex (\<lambda>d. Summary d = ''External Program Missing'' \<and> Severity d = SeverityError)
           (Diagnostics (fst (Create env req (resp, w))))"
proof -
  let ?r = "planRead req resp"
  let ?c = "startedCmd env (Plan req)"
  let ?P = "\<lambda>d. Summary d = ''External Program Missing'' \<and> Severity d = SeverityError"
  have old: "\<not> list_ex ?P (Diagnostics ?r)"
    using noerr by (auto simp: HasError_iff list_ex_iff)
  have add: "\<not> list_ex ?P (Diagnostics (AddError ?r summary detail))"
    if "summary \<noteq> ''External Program Missing''" for summary detail
    using old that by (simp add: AddError_new [OF noerr])
  show ?thesis
  proof (cases "launches env req resp")
    case False
    with noerr prog obtain err where "snd (LookPath env (hd (programOf env (Plan req)))) = Some err"
      by (auto simp: launches_def)
    with noerr prog show ?thesis
      by (simp add: Create_lookup_failed add)
  next
    case True
    show ?thesis
    proof (cases "snd (Output env ?c)")
      case (Some e)
      with True show ?thesis
        by (cases e) (simp_all add: Create_launches executionFailed_def add)
    next
      case None
      show ?thesis
      proof (cases "json_Unmarshal (fst (Output env ?c))")
        case (Inl e)
        with True None show ?thesis
          by (simp add: Create_launches decodeResult_error add)
      next
        case (Inr m)
        show ?thesis
        proof (cases m)
          case nil: None
          with True None Inr old show ?thesis
            by (simp add: Create_launches decodeResult_nil)
        next
          case (Some kvs)
          with True None Inr old noerr show ?thesis
            by (cases "list_all (\<lambda>kv. stringOf (snd kv) \<noteq> None) kvs")
              (simp_all add: Create_launches decodeResult_strings decodeResult_other
                Diagnostics_Append_error)
        qed
      qed
    qed
  qed
qed

lemma Stdin_startedCmd [simp]:
  "Stdin (startedCmd env plan) = marshalMap (queryOf env plan)"
  by (simp add: startedCmd_def commandOf_def)

lemma Args_startedCmd:
  "programOf env plan \<noteq> [] \<Longrightarrow> Args (startedCmd env plan) = programOf env plan"
  by (simp add: startedCmd_def commandOf_def exec_Command_def Let_def split: prod.splits)

lemma launched_Create:
  "launches env req resp \<Longrightarrow>
   launched (snd (Create env req (resp, w))) = launched w @ [startedCmd env (Plan req)]"
  by (simp add: Create_launches)

lemma programOf_no_quote: "list_all (\<lambda>a. dquote \<notin> set a) (programOf env plan)"
  using stripped_no_quote by (auto simp: programOf_def programLoop_eq list_all_iff)

lemma Path_startedCmd_stubEnv:
  "Path (startedCmd (stubEnv out err) plan) = hd (programOf (stubEnv out err) plan)"
  by (simp add: startedCmd_def commandOf_def exec_Command_def Let_def)

lemma queryOf_no_quote: "list_all (\<lambda>kv. dquote \<notin> set (snd kv)) (queryOf env plan)"
proof -
  have "snd ` set (queryOf env plan)
      \<subseteq> stripped (isPrintTab env) ` snd ` set (MapValue_Elements (Query plan))"
    using queryLoop_values [of "isPrintTab env" "MapValue_Elements (Query plan)" "[]"]
    by (simp add: queryOf_def)
  then have "\<exists>v. snd kv = stripped (isPrintTab env) v" if "kv \<in> set (queryOf env plan)" for kv
    using that by blast
  then have "dquote \<notin> set (snd kv)" if "kv \<in> set (queryOf env plan)" for kv
    using that stripped_no_quote by metis
  then show ?thesis
    by (simp add: list_all_iff)
qed

lemma Create_state_id:
  assumes none: "State resp = None"
    and some: "State (fst (Create env req (resp, w))) = Some st"
  shows "Id' st = StringValue ''example-id''"
proof (cases "launches env req resp")
  case False
  from Create_not_launches [OF this, of w] none some show ?thesis
    by simp
next
  case True
  let ?c = "startedCmd env (Plan req)"
  show ?thesis
  proof (cases "snd (Output env ?c)")
    case (Some e)
    with True none some show ?thesis
      by (simp add: Create_launches)
  next
    case None
    show ?thesis
    proof (cases "json_Unmarshal (fst (Output env ?c))")
      case (Inl e)
      with True None none some show ?thesis
        by (simp add: Create_launches decodeResult_error)
    next
      case (Inr m)
      show ?thesis
      proof (cases m)
        case nil: None
        with True None Inr some show ?thesis
          by (auto simp: Create_launches decodeResult_nil)
      next
        case (Some kvs)
        with True None Inr some show ?thesis
          by (cases "list_all (\<lambda>kv. stringOf (snd kv) \<noteq> None) kvs")
            (auto simp: Create_launches decodeResult_strings decodeResult_other)
      qed
    qed
  qed
qed

text \<open>
  When \<^verbatim>\<open>Create\<close> runs the command, no argument of the command holds a double
  quote, and its standard input is the encoding of a map none of whose
  values holds a double quote.
\<close>

lemma no_quote_reaches_the_program:
  assumes "launches env req resp"
  shows "launched (snd (Create env req (resp, w))) = launched w @ [startedCmd env (Plan req)] \<and>
         list_all (\<lambda>a. dquote \<notin> set a) (Args (startedCmd env (Plan req))) \<and>
         Stdin (startedCmd env (Plan req)) = marshalMap (queryOf env (Plan req)) \<and>
         list_all (\<lambda>kv. dquote \<notin> set (snd kv)) (queryOf env (Plan req))"
proof -
  from assms have "programOf env (Plan req) \<noteq> []"
    by (simp add: launches_def)
  with assms show ?thesis
    by (simp add: launched_Create Args_startedCmd programOf_no_quote queryOf_no_quote)
qed

subsection \<open>The examples evaluated\<close>

lemma Create_stubEnv:
  assumes "programOf (stubEnv out err) (planOf p q) \<noteq> []"
  shows "Create (stubEnv out err) (requestOf p q) (emptyResponse, w) =
     ((case err of
         Some e \<Rightarrow> executionFailed emptyResponse (startedCmd (stubEnv out err) (planOf p q)) e
       | None \<Rightarrow>
           decodeResult (stubEnv out err) (planOf p q) emptyResponse
             (startedCmd (stubEnv out err) (planOf p q)) out),
      w @ runEvents (stubEnv out err) (startedCmd (stubEnv out err) (planOf p q)))"
  using assms by (simp add: Create_launches launches_stubEnv split: option.splits)

lemma programOf_stub: "programOf env (planOf [''stub''] q) = [''stub'']"
  by (simp add: programOf_planOf quote_eval)


lemma programOf_stub_quoted:
  \<open>programOf env (planOf [''stub'', ''ch"eese''] q) = [''stub'', ''ch'' @ bslash # ''eese'']\<close>
  by (simp add: programOf_planOf quote_eval)

lemma queryOf_planOf:
  "queryOf env (planOf p q) = queryLoop (isPrintTab env) (map knownEntry q) []"
  by (simp add: queryOf_def planOf_def MapValue_Elements_def)

lemma strip_known_eval:
  "strings_Replace (StringValue_String tab (StringValue s)) (CHR 0x22) [] =
     filter (\<lambda>c. c \<noteq> CHR 0x22) (quoteBody tab s)"
  using strings_Replace_String_known [of tab s] by (simp add: dquote_def)

lemma queryOf_pizza: "queryOf env (planOf p [(''value'', ''pizza'')]) = [(''value'', ''pizza'')]"
  by (simp add: queryOf_planOf knownEntry_def strip_known_eval quote_eval)

lemma queryOf_quoted:
  \<open>queryOf env (planOf p [(''value'', ''pi"zza'')]) = [(''value'', ''pi'' @ bslash # ''zza'')]\<close>
  by (simp add: queryOf_planOf knownEntry_def strip_known_eval quote_eval)

lemmas marshal_eval =
  marshalMap_def jsonString_def jsonStringBody_Cons_safe jsonStringBody_Cons_bslash
  jsonStringBody_Cons_dquote htmlSafeSet_def dquote_def bslash_def

lemma marshal_pizza: \<open>marshalMap [(''value'', ''pizza'')] = ''{"value":"pizza"}''\<close>
  by (simp add: marshal_eval)

lemma marshal_quoted_stripped:
  \<open>marshalMap [(''value'', ''pi'' @ bslash # ''zza'')] = ''{"value":"pi'' @ bslash # bslash # ''zza"}''\<close>
  by (simp add: marshal_eval)

lemma marshal_quoted:
  \<open>marshalMap [(''value'', ''pi"zza'')] = ''{"value":"pi'' @ bslash # dquote # ''zza"}''\<close>
  by (simp add: marshal_eval)

lemmas unmarshal_eval =
  json_Unmarshal_def json_eval storeMembers_def float64Overflow_def digitsToInt_def

lemma unmarshal_strings:
  \<open>json_Unmarshal ''{"a":"b"}'' = Inr (Some [(''a'', JString ''b'')])\<close>
  by (simp add: unmarshal_eval)

lemma unmarshal_empty_object: \<open>json_Unmarshal ''{}'' = Inr (Some [])\<close>
  by (simp add: unmarshal_eval)

lemma parse_number_member: \<open>json_parse ''{"a":1}'' = Some (JObject [(''a'', JNumber ''1'')])\<close>
  by (simp add: json_eval)

lemma unmarshal_number_member:
  \<open>json_Unmarshal ''{"a":1}'' = Inr (Some [(''a'', JNumber ''1'')])\<close>
  by (simp add: json_Unmarshal_def parse_number_member storeMembers_def float64Overflow_def
      digitsToInt_def isDigit_def)

lemma unmarshal_array:
  \<open>json_Unmarshal ''[1]'' = Inl (UnmarshalTypeError ''array'' ''map[string]interface {}'')\<close>
  by (simp add: unmarshal_eval)

lemma unmarshal_test_output:
  \<open>json_Unmarshal ''{"argument":"cheese","query_value":"pizza"}'' =
     Inr (Some [(''argument'', JString ''cheese''), (''query_value'', JString ''pizza'')])\<close>
  by (simp add: unmarshal_eval)

lemma launches_stub [simp]: "launches (stubEnv out err) (requestOf (''stub'' # args) q) emptyResponse"
proof -
  have "programOf (stubEnv out err) (planOf (''stub'' # args) q) \<noteq> []"
    by (simp add: programOf_planOf quote_eval)
  then show ?thesis
    by (simp add: launches_stubEnv)
qed

lemma launched_Create_stub:
  "launched (snd (Create (stubEnv out err) (requestOf (''stub'' # args) q) (emptyResponse, []))) =
     [startedCmd (stubEnv out err) (planOf (''stub'' # args) q)]"
  using launched_Create [OF launches_stub, of out err args q "[]"] by simp

lemma fst_Create_stub:
  "fst (Create (stubEnv out None) (requestOf (''stub'' # args) q) (emptyResponse, w)) =
     decodeResult (stubEnv out None) (planOf (''stub'' # args) q) emptyResponse
       (startedCmd (stubEnv out None) (planOf (''stub'' # args) q)) out"
  using Create_launches [OF launches_stub, of out None args q w] by simp

lemma conversionErrorText_stubEnv [simp]:
  "conversionErrorText (stubEnv out err) m = ''(text of the library)''"
  by (simp add: stubEnv_def someText_def)

lemma stringOf_badNumbers: "stringOf v \<noteq> None \<Longrightarrow> badNumbers v = []"
  by (cases v) simp_all

lemma strings_badNumbers:
  "list_all (\<lambda>kv. stringOf (snd kv) \<noteq> None) ms \<Longrightarrow> badNumbers (JObject ms) = []"
  by (induction ms) (simp_all add: stringOf_badNumbers)

lemma foldl_update_values:
  "snd ` set (foldl (\<lambda>m kv. AList.update (fst kv) (snd kv) m) acc ms) \<subseteq> snd ` set acc \<union> snd ` set ms"
proof (induction ms arbitrary: acc)
  case Nil
  then show ?case by simp
next
  case (Cons kv ms)
  from Cons.IH [of "AList.update (fst kv) (snd kv) acc"]
    set_update_values [of "fst kv" "snd kv" acc]
  show ?case
    by auto
qed

lemma strings_storeMembers:
  assumes "list_all (\<lambda>kv. stringOf (snd kv) \<noteq> None) ms"
  shows "list_all (\<lambda>kv. stringOf (snd kv) \<noteq> None) (storeMembers ms)"
proof -
  have sub: "snd ` set (storeMembers ms) \<subseteq> snd ` set ms"
    using foldl_update_values [of "[]" ms] by (simp add: storeMembers_def)
  have "stringOf (snd kv) \<noteq> None" if kv: "kv \<in> set (storeMembers ms)" for kv
  proof -
    from kv have "snd kv \<in> snd ` set (storeMembers ms)"
      by (rule imageI)
    with sub have "snd kv \<in> snd ` set ms"
      by (rule subsetD)
    then obtain kv' where "kv' \<in> set ms" and "snd kv = snd kv'"
      by auto
    with assms show ?thesis
      by (auto simp: list_all_iff)
  qed
  then show ?thesis
    by (simp add: list_all_iff)
qed

text \<open>
  What \<^verbatim>\<open>Create\<close> does with the output \<open>out\<close> of a command that ended without an
  error.  If \<open>out\<close> is not JSON, or is a JSON array, string, number or boolean,
  the response gets the error "Unexpected External Program Results" and its
  state is not set.  If \<open>out\<close> is an object whose values are all strings,
  nothing is added to the diagnostics and the stored result is the map of
  these strings, as they are (of a key written twice, the last value).  If
  \<open>out\<close> is an object whose numbers all fit a \<^verbatim>\<open>float64\<close> and the map decoded
  from it holds a value that is not a string, the diagnostic that is added is
  the "Value Conversion Error" of the framework.
\<close>

lemma Create_decodes:
  assumes "launches env req resp"
    and "Output env (startedCmd env (Plan req)) = (out, None)"
  shows "((json_parse out = None \<or> (\<exists>b. json_parse out = Some (JBool b)) \<or>
           (\<exists>n. json_parse out = Some (JNumber n)) \<or> (\<exists>s. json_parse out = Some (JString s)) \<or>
           (\<exists>items. json_parse out = Some (JArray items))) \<longrightarrow>
          (\<exists>detail. fst (Create env req (resp, w)) =
             (planRead req resp)\<lparr>Diagnostics := Diagnostics (planRead req resp) @
               [\<lparr>Severity = SeverityError, Summary = ''Unexpected External Program Results'',
                 Detail = detail\<rparr>]\<rparr>) \<and>
          State (fst (Create env req (resp, w))) = State resp) \<and>
         (\<forall>ms. json_parse out = Some (JObject ms) \<and>
              list_all (\<lambda>kv. stringOf (snd kv) \<noteq> None) ms \<longrightarrow>
            fst (Create env req (resp, w)) =
              (planRead req resp)\<lparr>State := Some ((Plan req)
                 \<lparr>Id' := StringValue ''example-id'',
                  Result := MapValue (map (\<lambda>kv. (fst kv, StringValue (the (stringOf (snd kv)))))
                                        (storeMembers ms))\<rparr>)\<rparr>) \<and>
         (\<forall>ms. json_parse out = Some (JObject ms) \<and> badNumbers (JObject ms) = [] \<and>
              \<not> list_all (\<lambda>kv. stringOf (snd kv) \<noteq> None) (storeMembers ms) \<longrightarrow>
            Diagnostics (fst (Create env req (resp, w))) =
              Diagnostics (planRead req resp) @
                [\<lparr>Severity = SeverityError, Summary = ''Value Conversion Error'',
                  Detail = conversionErrorText env (storeMembers ms)\<rparr>])"
proof -
  let ?r = "planRead req resp"
  let ?c = "startedCmd env (Plan req)"
  from assms(1) have noerr: "\<not> HasError (Diagnostics ?r)"
    by (simp add: launches_def)
  have run: "fst (Create env req (resp, w)) = decodeResult env (Plan req) ?r ?c out"
    using assms by (simp add: Create_launches)
  have rejected: "(\<exists>detail. fst (Create env req (resp, w)) =
             ?r\<lparr>Diagnostics := Diagnostics ?r @
               [\<lparr>Severity = SeverityError, Summary = ''Unexpected External Program Results'',
                 Detail = detail\<rparr>]\<rparr>) \<and>
          State (fst (Create env req (resp, w))) = State resp"
    if u: "json_Unmarshal out = Inl e" for e
  proof -
    have eq: "fst (Create env req (resp, w)) =
        ?r\<lparr>Diagnostics := Diagnostics ?r @
          [\<lparr>Severity = SeverityError, Summary = ''Unexpected External Program Results'',
            Detail = detailUnexpectedResults (Path ?c) (json_error_text env out e)\<rparr>]\<rparr>"
      using u by (simp add: run decodeResult_error AddError_new [OF noerr])
    then have "State (fst (Create env req (resp, w))) = State resp"
      by simp
    with eq show ?thesis
      by blast
  qed
  have a: "json_parse out = None \<Longrightarrow> json_Unmarshal out = Inl SyntaxError"
    and b: "json_parse out = Some (JBool x) \<Longrightarrow>
          json_Unmarshal out = Inl (UnmarshalTypeError ''bool'' ''map[string]interface {}'')"
    and c: "json_parse out = Some (JNumber n) \<Longrightarrow>
          json_Unmarshal out = Inl (UnmarshalTypeError ''number'' ''map[string]interface {}'')"
    and d: "json_parse out = Some (JString s) \<Longrightarrow>
          json_Unmarshal out = Inl (UnmarshalTypeError ''string'' ''map[string]interface {}'')"
    and e: "json_parse out = Some (JArray items) \<Longrightarrow>
          json_Unmarshal out = Inl (UnmarshalTypeError ''array'' ''map[string]interface {}'')"
    for x n s items
    by (simp_all add: json_Unmarshal_def)
  have first: "(\<exists>detail. fst (Create env req (resp, w)) =
             ?r\<lparr>Diagnostics := Diagnostics ?r @
               [\<lparr>Severity = SeverityError, Summary = ''Unexpected External Program Results'',
                 Detail = detail\<rparr>]\<rparr>) \<and>
          State (fst (Create env req (resp, w))) = State resp"
    if "json_parse out = None \<or> (\<exists>b. json_parse out = Some (JBool b)) \<or>
           (\<exists>n. json_parse out = Some (JNumber n)) \<or> (\<exists>s. json_parse out = Some (JString s)) \<or>
           (\<exists>items. json_parse out = Some (JArray items))"
    using that a b c d e rejected by blast
  have second: "fst (Create env req (resp, w)) =
              ?r\<lparr>State := Some ((Plan req)
                 \<lparr>Id' := StringValue ''example-id'',
                  Result := MapValue (map (\<lambda>kv. (fst kv, StringValue (the (stringOf (snd kv)))))
                                        (storeMembers ms))\<rparr>)\<rparr>"
    if p: "json_parse out = Some (JObject ms)"
      and s: "list_all (\<lambda>kv. stringOf (snd kv) \<noteq> None) ms" for ms
  proof -
    from strings_badNumbers [OF s] have "concat (map (\<lambda>m. badNumbers (snd m)) ms) = []"
      by simp
    with p have "json_Unmarshal out = Inr (Some (storeMembers ms))"
      by (simp add: json_Unmarshal_def del: concat_eq_Nil_conv)
    with strings_storeMembers [OF s] show ?thesis
      by (simp add: run decodeResult_strings)
  qed
  have third: "Diagnostics (fst (Create env req (resp, w))) =
              Diagnostics ?r @
                [\<lparr>Severity = SeverityError, Summary = ''Value Conversion Error'',
                  Detail = conversionErrorText env (storeMembers ms)\<rparr>]"
    if p: "json_parse out = Some (JObject ms)" and n: "badNumbers (JObject ms) = []"
      and s: "\<not> list_all (\<lambda>kv. stringOf (snd kv) \<noteq> None) (storeMembers ms)" for ms
  proof -
    from n have "concat (map (\<lambda>m. badNumbers (snd m)) ms) = []"
      by simp
    with p have "json_Unmarshal out = Inr (Some (storeMembers ms))"
      by (simp add: json_Unmarshal_def del: concat_eq_Nil_conv)
    with s show ?thesis
      by (simp add: run decodeResult_other Diagnostics_Append_error [OF noerr])
  qed
  from first second third show ?thesis
    by blast
qed

lemma Create_decodes_examples:
  \<open>fst (Create (stubEnv ''[1]'' None) (requestOf [''stub''] []) (emptyResponse, [])) =
     emptyResponse\<lparr>Diagnostics :=
       [\<lparr>Severity = SeverityError, Summary = ''Unexpected External Program Results'',
         Detail = detailUnexpectedResults ''stub''
           ''json: cannot unmarshal array into Go value of type map[string]interface {}''\<rparr>]\<rparr> \<and>
   fst (Create (stubEnv ''{"a":"b"}'' None) (requestOf [''stub''] []) (emptyResponse, [])) =
     emptyResponse\<lparr>State := Some ((planOf [''stub''] [])
       \<lparr>Id' := StringValue ''example-id'', Result := MapValue [(''a'', StringValue ''b'')]\<rparr>)\<rparr> \<and>
   Diagnostics (fst (Create (stubEnv ''{"a":1}'' None) (requestOf [''stub''] []) (emptyResponse, []))) =
     [\<lparr>Severity = SeverityError, Summary = ''Value Conversion Error'',
       Detail = ''(text of the library)''\<rparr>]\<close>
proof -
  have o: "Output (stubEnv out None) c = (out, None)" for out c
    by simp
  have p1: \<open>json_parse ''[1]'' = Some (JArray [JNumber ''1''])\<close>
    and p2: \<open>json_parse ''{"a":"b"}'' = Some (JObject [(''a'', JString ''b'')])\<close>
    by (simp_all add: json_eval)
  have s: "storeMembers [(k, v)] = [(k, v)]" for k :: string and v :: json
    by (simp add: storeMembers_def)
  from Create_decodes [OF launches_stub o, of "''[1]''" "[]" "[]" "[]"] p1
  have "\<exists>detail. fst (Create (stubEnv ''[1]'' None) (requestOf [''stub''] []) (emptyResponse, [])) =
      emptyResponse\<lparr>Diagnostics :=
        [\<lparr>Severity = SeverityError, Summary = ''Unexpected External Program Results'',
          Detail = detail\<rparr>]\<rparr>"
    by simp
  then have first: "fst (Create (stubEnv ''[1]'' None) (requestOf [''stub''] []) (emptyResponse, [])) =
     emptyResponse\<lparr>Diagnostics :=
       [\<lparr>Severity = SeverityError, Summary = ''Unexpected External Program Results'',
         Detail = detailUnexpectedResults ''stub''
           ''json: cannot unmarshal array into Go value of type map[string]interface {}''\<rparr>]\<rparr>"
    by (simp add: fst_Create_stub decodeResult_error [OF unmarshal_array] AddError_new
        json_error_text_def Path_startedCmd_stubEnv programOf_stub)
  from Create_decodes [OF launches_stub o, of \<open>''{"a":"b"}''\<close> "[]" "[]" "[]"] p2
  have second: \<open>fst (Create (stubEnv ''{"a":"b"}'' None) (requestOf [''stub''] []) (emptyResponse, [])) =
     emptyResponse\<lparr>State := Some ((planOf [''stub''] [])
       \<lparr>Id' := StringValue ''example-id'', Result := MapValue [(''a'', StringValue ''b'')]\<rparr>)\<rparr>\<close>
    by (simp add: s)
  from Create_decodes [OF launches_stub o, of \<open>''{"a":1}''\<close> "[]" "[]" "[]"] parse_number_member
  have third: \<open>Diagnostics (fst (Create (stubEnv ''{"a":1}'' None) (requestOf [''stub''] [])
        (emptyResponse, []))) =
     [\<lparr>Severity = SeverityError, Summary = ''Value Conversion Error'',
       Detail = ''(text of the library)''\<rparr>]\<close>
    by (simp add: s float64Overflow_def digitsToInt_def isDigit_def)
  from first second third show ?thesis
    by simp
qed

lemma no_quote_reaches_the_program_example:
  \<open>launched (snd (Create (stubEnv ''{}'' None)
       (requestOf [''stub'', ''ch"eese''] [(''value'', ''pi"zza'')]) (emptyResponse, []))) =
     [startedCmd (stubEnv ''{}'' None) (planOf [''stub'', ''ch"eese''] [(''value'', ''pi"zza'')])] \<and>
   Args (startedCmd (stubEnv ''{}'' None) (planOf [''stub'', ''ch"eese''] [(''value'', ''pi"zza'')])) =
     [''stub'', ''ch'' @ bslash # ''eese''] \<and>
   list_all (\<lambda>a. dquote \<notin> set a)
     (Args (startedCmd (stubEnv ''{}'' None) (planOf [''stub'', ''ch"eese''] [(''value'', ''pi"zza'')]))) \<and>
   queryOf (stubEnv ''{}'' None) (planOf [''stub'', ''ch"eese''] [(''value'', ''pi"zza'')]) =
     [(''value'', ''pi'' @ bslash # ''zza'')] \<and>
   list_all (\<lambda>kv. dquote \<notin> set (snd kv))
     (queryOf (stubEnv ''{}'' None) (planOf [''stub'', ''ch"eese''] [(''value'', ''pi"zza'')]))\<close>
  using no_quote_reaches_the_program [OF launches_stub,
      of \<open>''{}''\<close> None \<open>[''ch"eese'']\<close> \<open>[(''value'', ''pi"zza'')]\<close> "[]"]
  by (simp add: Args_startedCmd programOf_stub_quoted queryOf_quoted)

text \<open>
  The output \<^verbatim>\<open>null\<close> is no object, and \<^verbatim>\<open>json.Unmarshal\<close> takes it without an
  error: \<^verbatim>\<open>Create\<close> stores the null result and adds no diagnostic.
\<close>

lemma Create_null_output:
  "fst (Create (stubEnv ''null'' None) (requestOf [''stub''] []) (emptyResponse, [])) =
     emptyResponse\<lparr>State := Some ((planOf [''stub''] [])
       \<lparr>Id' := StringValue ''example-id'', Result := MapNull\<rparr>)\<rparr>"
proof -
  have "json_Unmarshal ''null'' = Inr None"
    by (simp add: unmarshal_eval)
  then show ?thesis
    by (simp add: fst_Create_stub decodeResult_nil)
qed

lemma update_fresh: "k \<notin> fst ` set al \<Longrightarrow> AList.update k v al = al @ [(k, v)]"
  by (induction al) auto

lemma stripped_plain:
  assumes "list_all (\<lambda>c. 0x20 \<le> (of_char c :: nat) \<and> (of_char c :: nat) \<le> 0x7E
             \<and> (of_char c :: nat) \<noteq> 0x22 \<and> (of_char c :: nat) \<noteq> 0x5C) s"
  shows "stripped tab (StringValue s) = s"
proof -
  from assms have "\<forall>c \<in> set s. c \<noteq> dquote"
    by (auto simp: list_all_iff)
  then have "filter (\<lambda>c. c \<noteq> dquote) s = s"
    by (simp add: filter_id_conv)
  with quoteBody_plain [OF assms, of tab] show ?thesis
    by (simp add: stripped_known)
qed

lemma queryLoop_plain:
  assumes "list_all (\<lambda>kv. list_all (\<lambda>c. 0x20 \<le> (of_char c :: nat) \<and> (of_char c :: nat) \<le> 0x7E
             \<and> (of_char c :: nat) \<noteq> 0x22 \<and> (of_char c :: nat) \<noteq> 0x5C) (snd kv)) q"
    and "distinct (map fst q)"
    and "fst ` set q \<inter> fst ` set acc = {}"
  shows "queryLoop tab (map knownEntry q) acc = acc @ filter (\<lambda>kv. snd kv \<noteq> []) q"
  using assms
proof (induction q arbitrary: acc)
  case Nil
  then show ?case by simp
next
  case (Cons kv q)
  obtain k v where kv: "kv = (k, v)" by (cases kv)
  from Cons.prems kv have v: "stripped tab (StringValue v) = v"
    by (simp add: stripped_plain)
  have ke: "knownEntry (k, x) = (k, StringValue x)" for x
    by (simp add: knownEntry_def)
  from Cons.prems kv have fresh: "k \<notin> fst ` set acc" and k: "k \<notin> fst ` set q"
    by auto
  show ?case
  proof (cases "v = []")
    case True
    with Cons kv v show ?thesis
      by (simp add: ke stripped_def [symmetric])
  next
    case False
    from Cons.prems k have "fst ` set q \<inter> fst ` set (acc @ [(k, v)]) = {}"
      by auto
    with Cons.IH [of "acc @ [(k, v)]"] Cons.prems
    have "queryLoop tab (map knownEntry q) (acc @ [(k, v)]) =
        (acc @ [(k, v)]) @ filter (\<lambda>kv. snd kv \<noteq> []) q"
      by simp
    with False kv v fresh show ?thesis
      by (simp add: ke stripped_def [symmetric] update_fresh)
  qed
qed

text \<open>
  For a query of known strings with distinct keys whose values hold printable
  ASCII characters other than the double quote and the backslash, the loop
  keeps the entries with a non-empty value as they are, in their order, and
  the command reads their encoding.  Encoding the map has no error.
\<close>

lemma Create_sends_plain_query:
  assumes "launches env req resp"
    and "MapValue_Elements (Query (Plan req)) = map knownEntry q"
    and "list_all (\<lambda>kv. list_all (\<lambda>c. 0x20 \<le> (of_char c :: nat) \<and> (of_char c :: nat) \<le> 0x7E
             \<and> (of_char c :: nat) \<noteq> 0x22 \<and> (of_char c :: nat) \<noteq> 0x5C) (snd kv)) q"
    and "distinct (map fst q)"
  shows "launched (snd (Create env req (resp, w))) = launched w @ [startedCmd env (Plan req)] \<and>
         Stdin (startedCmd env (Plan req)) = marshalMap (filter (\<lambda>kv. snd kv \<noteq> []) q) \<and>
         json_Marshal (queryOf env (Plan req)) = Inr (marshalMap (filter (\<lambda>kv. snd kv \<noteq> []) q))"
proof -
  from assms(2-4) have "queryOf env (Plan req) = filter (\<lambda>kv. snd kv \<noteq> []) q"
    using queryLoop_plain [of q "[]" "isPrintTab env"] by (simp add: queryOf_def)
  with assms(1) show ?thesis
    by (simp add: launched_Create json_Marshal_def)
qed

lemma prefixSuffixSaver_short:
  "length written \<le> 2 * N \<Longrightarrow> prefixSuffixSaver_Bytes N written = written"
  by (simp add: prefixSuffixSaver_Bytes_def Let_def)

lemma count_list_infix:
  "ys = ps @ xs @ ss \<Longrightarrow> count_list xs c \<le> count_list ys c"
  by simp

lemma count_list_replicate: "count_list (replicate n c) c = n"
  by (induction n) simp_all

lemma capture_above_64KiB:
  "prefixSuffixSaver_Bytes 32768 (replicate 65537 c) =
     replicate 32768 c @ ''\<newline>... omitting 1 bytes ...\<newline>'' @ replicate 32768 c"
  by (simp add: prefixSuffixSaver_Bytes_def Let_def FormatInt.simps)

subsection \<open>The claims\<close>

text \<open>
  C1.  The plan has been read without an error and the program is a list of
  known strings \<open>xs\<close>.  If no element of \<open>xs\<close> is left after the empty strings
  are removed, \<^verbatim>\<open>Create\<close> adds the error diagnostic "External Program Missing"
  and returns with the world as it was: no program is looked up or run.  If
  an element is left, the response holds no such error, however many empty
  strings the list has and wherever they stand.
\<close>

theorem C1_program_missing:
  assumes "\<not> HasError (Diagnostics (planRead req resp))"
    and "Program (Plan req) = ListValue (map StringValue xs)"
  shows "(filter (\<lambda>x. x \<noteq> []) xs = [] \<longrightarrow>
            Create env req (resp, w) =
              ((planRead req resp)\<lparr>Diagnostics := Diagnostics (planRead req resp) @
                 [\<lparr>Severity = SeverityError, Summary = ''External Program Missing'',
                   Detail = detailProgramMissing\<rparr>]\<rparr>, w)) \<and>
         (filter (\<lambda>x. x \<noteq> []) xs \<noteq> [] \<longrightarrow>
            \<not> list_ex (\<lambda>d. Summary d = ''External Program Missing'' \<and> Severity d = SeverityError)
                 (Diagnostics (fst (Create env req (resp, w)))))"
proof -
  have prog: "programOf env (Plan req) =
      filter (\<lambda>a. a \<noteq> []) (map (stripped (isPrintTab env)) (map StringValue xs))"
    using assms(2) by (simp add: programOf_def ListValue_Elements_def programLoop_eq)
  have iff: "programOf env (Plan req) = [] \<longleftrightarrow> filter (\<lambda>x. x \<noteq> []) xs = []"
    unfolding prog by (induction xs) (simp_all add: stripped_empty_iff)
  show ?thesis
    using assms(1) iff Create_no_missing_error [of req resp env w]
    by (auto simp: Create_program_missing AddError_new)
qed

theorem C1_program_missing_witness:
  "Create (stubEnv ''{}'' None) (requestOf [[], []] []) (emptyResponse, []) =
     (emptyResponse\<lparr>Diagnostics :=
         [\<lparr>Severity = SeverityError, Summary = ''External Program Missing'',
           Detail = detailProgramMissing\<rparr>]\<rparr>, []) \<and>
   \<not> list_ex (\<lambda>d. Summary d = ''External Program Missing'' \<and> Severity d = SeverityError)
       (Diagnostics (fst (Create (stubEnv ''{}'' None) (requestOf [[], ''x''] []) (emptyResponse, []))))"
proof -
  have a: "Program (Plan (requestOf [[], []] [])) = ListValue (map StringValue [[], []])"
    and b: "Program (Plan (requestOf [[], ''x''] [])) = ListValue (map StringValue [[], ''x''])"
    by (simp_all add: planOf_def)
  have h: "\<not> HasError (Diagnostics (planRead (requestOf p []) emptyResponse))" for p
    by simp
  from C1_program_missing [OF h a, of "stubEnv ''{}'' None" "[]"]
    C1_program_missing [OF h b, of "stubEnv ''{}'' None" "[]"]
  show ?thesis
    by simp
qed

text \<open>
  C2 at the outputs \<^verbatim>\<open>{"a":1}\<close> and \<^verbatim>\<open>{"a":true}\<close>, objects with a value that is
  not a string.  \<^verbatim>\<open>json.Unmarshal\<close> decodes them into the map of any values
  without an error, so the response gets no "Unexpected External Program
  Results": the only diagnostic is the "Value Conversion Error" that the
  conversion of the map adds afterwards.
\<close>

theorem C2_non_string_value_not_malformed:
  \<open>json_Unmarshal ''{"a":1}'' = Inr (Some [(''a'', JNumber ''1'')]) \<and>
   Diagnostics (fst (Create (stubEnv ''{"a":1}'' None) (requestOf [''stub''] [])
       (emptyResponse, []))) =
     [\<lparr>Severity = SeverityError, Summary = ''Value Conversion Error'',
       Detail = ''(text of the library)''\<rparr>] \<and>
   \<not> list_ex (\<lambda>d. Summary d = ''Unexpected External Program Results'')
       (Diagnostics (fst (Create (stubEnv ''{"a":1}'' None) (requestOf [''stub''] [])
          (emptyResponse, [])))) \<and>
   json_Unmarshal ''{"a":true}'' = Inr (Some [(''a'', JBool True)]) \<and>
   Diagnostics (fst (Create (stubEnv ''{"a":true}'' None) (requestOf [''stub''] [])
       (emptyResponse, []))) =
     [\<lparr>Severity = SeverityError, Summary = ''Value Conversion Error'',
       Detail = ''(text of the library)''\<rparr>] \<and>
   \<not> list_ex (\<lambda>d. Summary d = ''Unexpected External Program Results'')
       (Diagnostics (fst (Create (stubEnv ''{"a":true}'' None) (requestOf [''stub''] [])
          (emptyResponse, []))))\<close>
proof -
  have u: \<open>json_Unmarshal ''{"a":true}'' = Inr (Some [(''a'', JBool True)])\<close>
    by (simp add: unmarshal_eval)
  show ?thesis
    by (simp add: unmarshal_number_member u fst_Create_stub
        decodeResult_other [OF unmarshal_number_member] decodeResult_other [OF u]
        Diagnostics_Append_single)
qed

text \<open>
  C3 at the output \<^verbatim>\<open>{"a":1}\<close>: the conversion of the decoded map fails, the
  error is appended, and \<^verbatim>\<open>Create\<close> goes on to set the state.  The response
  holds an error and a state with the identifier and an unknown result.
\<close>

theorem C3_state_set_after_conversion_error:
  \<open>fst (Create (stubEnv ''{"a":1}'' None) (requestOf [''stub''] []) (emptyResponse, [])) =
     \<lparr>State = Some ((planOf [''stub''] [])
        \<lparr>Id' := StringValue ''example-id'', Result := MapUnknown\<rparr>),
      Diagnostics =
        [\<lparr>Severity = SeverityError, Summary = ''Value Conversion Error'',
          Detail = ''(text of the library)''\<rparr>]\<rparr> \<and>
   HasError (Diagnostics (fst (Create (stubEnv ''{"a":1}'' None) (requestOf [''stub''] [])
     (emptyResponse, [])))) \<and>
   State (fst (Create (stubEnv ''{"a":1}'' None) (requestOf [''stub''] [])
     (emptyResponse, []))) \<noteq> None\<close>
proof -
  have \<open>fst (Create (stubEnv ''{"a":1}'' None) (requestOf [''stub''] []) (emptyResponse, [])) =
     emptyResponse\<lparr>State := Some ((planOf [''stub''] [])
        \<lparr>Id' := StringValue ''example-id'', Result := MapUnknown\<rparr>),
      Diagnostics :=
        [\<lparr>Severity = SeverityError, Summary = ''Value Conversion Error'',
          Detail = ''(text of the library)''\<rparr>]\<rparr>\<close>
    by (simp add: fst_Create_stub decodeResult_other [OF unmarshal_number_member]
        Diagnostics_Append_single)
  then show ?thesis
    by (simp add: emptyResponse_def HasError_def)
qed

text \<open>
  C4, as amended.  \<^verbatim>\<open>Create\<close> has run the command and \<^verbatim>\<open>cmd.Output()\<close> has
  returned an \<^verbatim>\<open>*exec.ExitError\<close> with the state text \<open>state\<close> and with \<open>stderr\<close>
  as the capture \<^verbatim>\<open>exitErr.Stderr\<close> of the standard error of the child.  The response gets one more diagnostic, the error "External
  Program Execution Failed".  If the capture is not empty, the detail holds
  it byte for byte after "Error Message: "; if it is empty, the detail says
  that the program returned no additional error messaging and gives the
  program and the state only.  The state of the response is not set.
\<close>

theorem C4_exit_error_message:
  assumes "launches env req resp"
    and "snd (Output env (startedCmd env (Plan req))) = Some (ExitError stderr state)"
  shows "(stderr \<noteq> [] \<longrightarrow>
            fst (Create env req (resp, w)) =
              (planRead req resp)\<lparr>Diagnostics := Diagnostics (planRead req resp) @
                [\<lparr>Severity = SeverityError, Summary = ''External Program Execution Failed'',
                  Detail =
                    ''The data source received an unexpected error while attempting to execute the program.'' @
                    ''\<newline>\<newline>Program: '' @ Path (startedCmd env (Plan req)) @
                    ''\<newline>Error Message: '' @ stderr @
                    ''\<newline>State: '' @ state\<rparr>]\<rparr>) \<and>
         (stderr = [] \<longrightarrow>
            fst (Create env req (resp, w)) =
              (planRead req resp)\<lparr>Diagnostics := Diagnostics (planRead req resp) @
                [\<lparr>Severity = SeverityError, Summary = ''External Program Execution Failed'',
                  Detail =
                    ''The data source received an unexpected error while attempting to execute the program.\<newline>\<newline>'' @
                    ''The program was executed, however it returned no additional error messaging.'' @
                    ''\<newline>\<newline>Program: '' @ Path (startedCmd env (Plan req)) @
                    ''\<newline>State: '' @ state\<rparr>]\<rparr>) \<and>
         State (fst (Create env req (resp, w))) = State resp"
proof -
  from assms(1) have noerr: "\<not> HasError (Diagnostics (planRead req resp))"
    by (simp add: launches_def)
  show ?thesis
    using assms
    by (simp add: Create_launches executionFailed_def AddError_new [OF noerr] Error_text_def
        detailExitStderr_def detailExitSilent_def)
qed

theorem C4_exit_error_message_witness:
  "fst (Create (stubEnv [] (Some (ExitError ''I was asked to fail'' ''exit status 1'')))
         (requestOf [''stub''] [(''fail'', ''true'')]) (emptyResponse, [])) =
     emptyResponse\<lparr>Diagnostics :=
       [\<lparr>Severity = SeverityError, Summary = ''External Program Execution Failed'',
         Detail =
           ''The data source received an unexpected error while attempting to execute the program.'' @
           ''\<newline>\<newline>Program: stub'' @
           ''\<newline>Error Message: I was asked to fail'' @
           ''\<newline>State: exit status 1''\<rparr>]\<rparr> \<and>
   fst (Create (stubEnv [] (Some (ExitError [] ''exit status 2'')))
         (requestOf [''stub''] [(''fail'', ''true'')]) (emptyResponse, [])) =
     emptyResponse\<lparr>Diagnostics :=
       [\<lparr>Severity = SeverityError, Summary = ''External Program Execution Failed'',
         Detail =
           ''The data source received an unexpected error while attempting to execute the program.\<newline>\<newline>'' @
           ''The program was executed, however it returned no additional error messaging.'' @
           ''\<newline>\<newline>Program: stub'' @
           ''\<newline>State: exit status 2''\<rparr>]\<rparr>"
proof -
  have prog: "programOf (stubEnv out err) (planOf [''stub''] q) = [''stub'']" for out err q
    by (simp add: programOf_planOf quote_eval)
  have l: "launches (stubEnv out err) (requestOf [''stub''] q) emptyResponse" for out err q
    by (simp add: launches_stubEnv prog)
  have p: "Path (startedCmd (stubEnv out err) (planOf [''stub''] q)) = ''stub''" for out err q
    by (simp add: Path_startedCmd_stubEnv prog)
  have o: "snd (Output (stubEnv out (Some e)) c) = Some e" for out e c
    by simp
  from C4_exit_error_message [OF l, of _ _ _ "''I was asked to fail''" "''exit status 1''" "[]"]
    C4_exit_error_message [OF l, of _ _ _ "[]" "''exit status 2''" "[]"]
  show ?thesis
    by (simp add: p)
qed

text \<open>
  The claim C4 as it stands fails at a child that writes 65537 bytes, all of
  them number signs, on its standard error and ends with the exit status 1.
  The message holds the first 32768 of them, a note of \<^verbatim>\<open>os/exec\<close> and the last
  32768: the bytes the child wrote are nowhere in it.
\<close>

theorem C4_counterexample:
  "Diagnostics (fst (Create
      (childEnv \<lparr>wrote_stdout = [], wrote_stderr = replicate 65537 CHR ''#'',
                 exit_state = Some ''exit status 1''\<rparr>)
      (requestOf [''stub''] []) (emptyResponse, []))) =
     [\<lparr>Severity = SeverityError, Summary = ''External Program Execution Failed'',
       Detail =
         ''The data source received an unexpected error while attempting to execute the program.'' @
         ''\<newline>\<newline>Program: stub'' @
         ''\<newline>Error Message: '' @ replicate 32768 CHR ''#'' @
            ''\<newline>... omitting 1 bytes ...\<newline>'' @ replicate 32768 CHR ''#'' @
         ''\<newline>State: exit status 1''\<rparr>] \<and>
   \<not> (\<exists>ps ss.
         ''The data source received an unexpected error while attempting to execute the program.'' @
         ''\<newline>\<newline>Program: stub'' @
         ''\<newline>Error Message: '' @ replicate 32768 CHR ''#'' @
            ''\<newline>... omitting 1 bytes ...\<newline>'' @ replicate 32768 CHR ''#'' @
         ''\<newline>State: exit status 1'' = ps @ replicate 65537 CHR ''#'' @ ss)"
proof -
  let ?env = "childEnv \<lparr>wrote_stdout = [], wrote_stderr = replicate 65537 CHR ''#'',
                 exit_state = Some ''exit status 1''\<rparr>"
  let ?detail = "''The data source received an unexpected error while attempting to execute the program.'' @
         ''\<newline>\<newline>Program: stub'' @
         ''\<newline>Error Message: '' @ replicate 32768 CHR ''#'' @
            ''\<newline>... omitting 1 bytes ...\<newline>'' @ replicate 32768 CHR ''#'' @
         ''\<newline>State: exit status 1''"
  have env: "?env = stubEnv [] (Some (ExitError
      (replicate 32768 CHR ''#'' @ ''\<newline>... omitting 1 bytes ...\<newline>'' @ replicate 32768 CHR ''#'')
      ''exit status 1''))"
    by (simp add: childEnv_def Cmd_Output_def capture_above_64KiB)
  have first: "Diagnostics (fst (Create ?env (requestOf [''stub''] []) (emptyResponse, []))) =
     [\<lparr>Severity = SeverityError, Summary = ''External Program Execution Failed'',
       Detail = ?detail\<rparr>]"
    unfolding env
    by (simp add: Create_stubEnv programOf_stub executionFailed_def AddError_new Error_text_def
        detailExitStderr_def Path_startedCmd_stubEnv)
  have count: "count_list ?detail CHR ''#'' = 65536"
    by (simp add: count_list_replicate)
  have second: "\<not> (\<exists>ps ss. ?detail = ps @ replicate 65537 CHR ''#'' @ ss)"
  proof
    assume "\<exists>ps ss. ?detail = ps @ replicate 65537 CHR ''#'' @ ss"
    then obtain ps ss where "?detail = ps @ replicate 65537 CHR ''#'' @ ss"
      by blast
    from count_list_infix [OF this, of "CHR ''#''"] count show False
      by (simp add: count_list_replicate)
  qed
  from first second show ?thesis
    by blast
qed

text \<open>
  C5.  \<^verbatim>\<open>Read\<close> returns the response and the world as it received them: the
  stored state with its result and identifier and the diagnostics are the
  same, and no command has been run.
\<close>

theorem C5_read_changes_nothing:
  "Read req (resp, w) = (resp, w) \<and>
   State (fst (Read req (resp, w))) = State resp \<and>
   Diagnostics (fst (Read req (resp, w))) = Diagnostics resp \<and>
   launched (snd (Read req (resp, w))) = launched w"
  by (simp add: Read_def)




text \<open>
  C7.  Whenever \<^verbatim>\<open>Create\<close> sets the state of a response that had none, the
  identifier of the stored model is the constant "example-id".  So for two
  calls that both set the state, on any machines, for any plans and whatever
  the two children wrote, the identifiers are equal.
\<close>

theorem C7_identity_token:
  assumes "State resp1 = None" and "State resp2 = None"
    and "State (fst (Create env1 req1 (resp1, w1))) = Some st1"
    and "State (fst (Create env2 req2 (resp2, w2))) = Some st2"
  shows "Id' st1 = StringValue ''example-id'' \<and> Id' st2 = Id' st1"
  using assms Create_state_id [of resp1 env1 req1 w1 st1] Create_state_id [of resp2 env2 req2 w2 st2]
  by simp

theorem C7_identity_token_witness:
  \<open>State (fst (Create (stubEnv ''{"a":"b"}'' None) (requestOf [''stub''] []) (emptyResponse, []))) =
     Some ((planOf [''stub''] [])
       \<lparr>Id' := StringValue ''example-id'', Result := MapValue [(''a'', StringValue ''b'')]\<rparr>) \<and>
   State (fst (Create (stubEnv ''{}'' None) (requestOf [''stub'', ''cheese''] [(''value'', ''pizza'')])
       (emptyResponse, []))) =
     Some ((planOf [''stub'', ''cheese''] [(''value'', ''pizza'')])
       \<lparr>Id' := StringValue ''example-id'', Result := MapValue []\<rparr>) \<and>
   Id' ((planOf [''stub''] [])
       \<lparr>Id' := StringValue ''example-id'', Result := MapValue [(''a'', StringValue ''b'')]\<rparr>) =
     StringValue ''example-id'' \<and>
   Id' ((planOf [''stub'', ''cheese''] [(''value'', ''pizza'')])
       \<lparr>Id' := StringValue ''example-id'', Result := MapValue []\<rparr>) =
     Id' ((planOf [''stub''] [])
       \<lparr>Id' := StringValue ''example-id'', Result := MapValue [(''a'', StringValue ''b'')]\<rparr>)\<close>
proof -
  have a: \<open>State (fst (Create (stubEnv ''{"a":"b"}'' None) (requestOf [''stub''] [])
        (emptyResponse, []))) =
     Some ((planOf [''stub''] [])
       \<lparr>Id' := StringValue ''example-id'', Result := MapValue [(''a'', StringValue ''b'')]\<rparr>)\<close>
    by (simp add: fst_Create_stub decodeResult_strings [OF unmarshal_strings])
  have b: \<open>State (fst (Create (stubEnv ''{}'' None)
        (requestOf [''stub'', ''cheese''] [(''value'', ''pizza'')]) (emptyResponse, []))) =
     Some ((planOf [''stub'', ''cheese''] [(''value'', ''pizza'')])
       \<lparr>Id' := StringValue ''example-id'', Result := MapValue []\<rparr>)\<close>
    by (simp add: fst_Create_stub decodeResult_strings [OF unmarshal_empty_object])
  from C7_identity_token [OF State_empty State_empty a b] a b show ?thesis
    by simp
qed

text \<open>
  C8 at the query \<^verbatim>\<open>{value = "pi\"zza"}\<close>, a value with a double quote in it:
  the command reads an object whose value has a backslash where the double
  quote was, which is not the encoding of the entry of the query.
\<close>

theorem C8_value_with_quote_is_altered:
  \<open>map Stdin (launched (snd (Create (stubEnv ''{}'' None)
       (requestOf [''stub''] [(''value'', ''pi"zza'')]) (emptyResponse, [])))) =
     [''{"value":"pi'' @ bslash # bslash # ''zza"}''] \<and>
   marshalMap [(''value'', ''pi"zza'')] = ''{"value":"pi'' @ bslash # dquote # ''zza"}'' \<and>
   map Stdin (launched (snd (Create (stubEnv ''{}'' None)
       (requestOf [''stub''] [(''value'', ''pi"zza'')]) (emptyResponse, [])))) \<noteq>
     [marshalMap [(''value'', ''pi"zza'')]]\<close>
  by (simp only: launched_Create_stub list.map Stdin_startedCmd queryOf_quoted
      marshal_quoted_stripped marshal_quoted)
    (simp add: bslash_def dquote_def)


text \<open>
  C10.  \<^verbatim>\<open>Create\<close> gets as far as running the command, and the query has no
  element (it is null, unknown or the empty map) or every value of it is the
  empty string.  Then the command that is run reads the two bytes \<^verbatim>\<open>{}\<close> on
  its standard input.
\<close>

theorem C10_empty_query_is_empty_object:
  assumes "launches env req resp"
    and "list_all (\<lambda>kv. snd kv = StringValue []) (MapValue_Elements (Query (Plan req)))"
  shows "launched (snd (Create env req (resp, w))) = launched w @ [startedCmd env (Plan req)] \<and>
         Stdin (startedCmd env (Plan req)) = ''{}''"
  using assms
  by (simp add: launched_Create queryOf_def queryLoop_all_empty marshalMap_Nil)

theorem C10_empty_query_is_empty_object_witness:
  "map Stdin (launched (snd (Create (stubEnv ''{}'' None) (requestOf [''stub''] [])
       (emptyResponse, [])))) = [''{}''] \<and>
   map Stdin (launched (snd (Create (stubEnv ''{}'' None)
       (requestOf [''stub''] [(''value'', []), (''other'', [])]) (emptyResponse, [])))) = [''{}''] \<and>
   map Stdin (launched (snd (Create (stubEnv ''{}'' None)
       \<lparr>Plan = (planOf [''stub''] [])\<lparr>Query := MapNull\<rparr>, Plan_Get_diags = []\<rparr>
       (emptyResponse, [])))) = [''{}'']"
proof -
  have a: "list_all (\<lambda>kv. snd kv = StringValue [])
      (MapValue_Elements (Query (Plan (requestOf [''stub''] []))))"
    and b: "list_all (\<lambda>kv. snd kv = StringValue [])
      (MapValue_Elements (Query (Plan (requestOf [''stub''] [(''value'', []), (''other'', [])]))))"
    and c: "list_all (\<lambda>kv. snd kv = StringValue [])
      (MapValue_Elements (Query (Plan
         \<lparr>Plan = (planOf [''stub''] [])\<lparr>Query := MapNull\<rparr>, Plan_Get_diags = []\<rparr>)))"
    by (simp_all add: planOf_def MapValue_Elements_def knownEntry_def)
  have "programOf (stubEnv ''{}'' None) ((planOf [''stub''] [])\<lparr>Query := MapNull\<rparr>) = [''stub'']"
    using programOf_stub [of "stubEnv ''{}'' None" "[]"] by (simp add: programOf_def planOf_def)
  then have l: "launches (stubEnv ''{}'' None)
      \<lparr>Plan = (planOf [''stub''] [])\<lparr>Query := MapNull\<rparr>, Plan_Get_diags = []\<rparr> emptyResponse"
    by (simp add: launches_def planRead_def emptyResponse_def HasError_def)
  from C10_empty_query_is_empty_object [OF launches_stub a, of "''{}''" None "[]"]
    C10_empty_query_is_empty_object [OF launches_stub b, of "''{}''" None "[]"]
    C10_empty_query_is_empty_object [OF l c, of "[]"]
  show ?thesis
    by simp
qed

end
